theory Spec2Isabelle
  imports Complex_Main "HOL-Library.Sublist"
begin

section \<open>JavaScript numbers\<close>

text \<open>
  Every number of \<^verbatim>\<open>generate.mjs\<close> is an IEEE-754 binary64 value. A finite value is
  kept as the rational it denotes; the two infinities and NaN are constructors of their
  own. Each arithmetic operation computes the exact rational result and rounds it to the
  nearest binary64 value, ties to even, with gradual underflow below \<open>2^-1022\<close> and
  overflow to an infinity from \<open>2^1024\<close> on. The two zeros are identified (\<open>Num 0\<close> stands
  for \<open>+0\<close>); no function modelled here distinguishes them except through a division by
  zero, where the zero is taken as \<open>+0\<close>.
\<close>

datatype jsnum = Num rat | PInf | NInf | NaN

text \<open>The number of binary digits of a positive integer.\<close>

function bit_length :: "int \<Rightarrow> int" where
  "bit_length n = (if n \<le> 0 then 0 else 1 + bit_length (n div 2))"
  by pat_completeness auto
termination
  by (relation "measure nat") auto

declare bit_length.simps [simp del]

definition pow2 :: "int \<Rightarrow> rat" where
  "pow2 k = (if 0 \<le> k then 2 ^ nat k else 1 / 2 ^ nat (- k))"

text \<open>The integer part of the binary logarithm of a positive rational.\<close>

definition floor_log2 :: "rat \<Rightarrow> int" where
  "floor_log2 q =
     (let k = bit_length (fst (quotient_of q)) - bit_length (snd (quotient_of q))
      in if pow2 k \<le> q then k else k - 1)"

definition round_half_even :: "rat \<Rightarrow> int" where
  "round_half_even x =
     (let f = \<lfloor>x\<rfloor>; d = x - of_int f
      in if d < 1 / 2 then f
         else if 1 / 2 < d then f + 1
         else if even f then f else f + 1)"

text \<open>Rounding of a positive rational to 53 significant bits (exponent not bounded above).\<close>

definition round_binary64 :: "rat \<Rightarrow> rat" where
  "round_binary64 q =
     (let e = max (floor_log2 q - 52) (- 1074)
      in of_int (round_half_even (q / pow2 e)) * pow2 e)"

definition fl :: "rat \<Rightarrow> jsnum" where
  "fl q =
     (if q = 0 then Num 0
      else let r = round_binary64 \<bar>q\<bar>
           in if 1024 \<le> floor_log2 r then (if 0 < q then PInf else NInf)
              else Num (if 0 < q then r else - r))"

text \<open>The sign of a value that is not NaN: \<open>True\<close> for a negative one.\<close>

fun js_neg :: "jsnum \<Rightarrow> bool" where
  "js_neg (Num q) = (q < 0)"
| "js_neg NInf = True"
| "js_neg _ = False"

definition signed_inf :: "bool \<Rightarrow> jsnum" where
  "signed_inf neg = (if neg then NInf else PInf)"

fun js_mul :: "jsnum \<Rightarrow> jsnum \<Rightarrow> jsnum" where
  "js_mul NaN _ = NaN"
| "js_mul _ NaN = NaN"
| "js_mul (Num a) (Num b) = fl (a * b)"
| "js_mul (Num a) y = (if a = 0 then NaN else signed_inf ((a < 0) \<noteq> js_neg y))"
| "js_mul x (Num b) = (if b = 0 then NaN else signed_inf (js_neg x \<noteq> (b < 0)))"
| "js_mul x y = signed_inf (js_neg x \<noteq> js_neg y)"

fun js_div :: "jsnum \<Rightarrow> jsnum \<Rightarrow> jsnum" where
  "js_div NaN _ = NaN"
| "js_div _ NaN = NaN"
| "js_div (Num a) (Num b) =
     (if b = 0 then (if a = 0 then NaN else signed_inf (a < 0)) else fl (a / b))"
| "js_div (Num a) y = Num 0"
| "js_div x (Num b) = signed_inf (js_neg x \<noteq> (b < 0))"
| "js_div x y = NaN"

fun js_sub :: "jsnum \<Rightarrow> jsnum \<Rightarrow> jsnum" where
  "js_sub NaN _ = NaN"
| "js_sub _ NaN = NaN"
| "js_sub (Num a) (Num b) = fl (a - b)"
| "js_sub (Num a) PInf = NInf"
| "js_sub (Num a) NInf = PInf"
| "js_sub PInf PInf = NaN"
| "js_sub NInf NInf = NaN"
| "js_sub x y = x"

fun js_abs :: "jsnum \<Rightarrow> jsnum" where
  "js_abs (Num a) = Num \<bar>a\<bar>"
| "js_abs NInf = PInf"
| "js_abs x = x"

text \<open>The comparison \<^verbatim>\<open>x < y\<close>: false as soon as one side is NaN.\<close>

fun js_lt :: "jsnum \<Rightarrow> jsnum \<Rightarrow> bool" where
  "js_lt NaN _ = False"
| "js_lt _ NaN = False"
| "js_lt (Num a) (Num b) = (a < b)"
| "js_lt (Num a) y = (y = PInf)"
| "js_lt x (Num b) = (x = NInf)"
| "js_lt x y = (x = NInf \<and> y = PInf)"

definition js_gt :: "jsnum \<Rightarrow> jsnum \<Rightarrow> bool" where
  "js_gt x y = js_lt y x"

text \<open>\<^verbatim>\<open>Math.min\<close> of two arguments, \<^verbatim>\<open>Math.floor\<close> and \<^verbatim>\<open>Math.round\<close>
  (nearest integer, a tie going up).\<close>

definition js_min :: "jsnum \<Rightarrow> jsnum \<Rightarrow> jsnum" where
  "js_min x y = (if x = NaN \<or> y = NaN then NaN else if js_lt y x then y else x)"

fun js_floor :: "jsnum \<Rightarrow> jsnum" where
  "js_floor (Num a) = Num (of_int \<lfloor>a\<rfloor>)"
| "js_floor x = x"

fun js_round :: "jsnum \<Rightarrow> jsnum" where
  "js_round (Num a) = Num (of_int \<lfloor>a + 1 / 2\<rfloor>)"
| "js_round x = x"

text \<open>
  A value that may be \<^verbatim>\<open>undefined\<close> (an array element past the end, a missing
  property) is a \<open>jsnum option\<close>; \<open>to_number\<close> is the conversion applied by an arithmetic
  operator and by \<^verbatim>\<open>isNaN\<close>.
\<close>

fun to_number :: "jsnum option \<Rightarrow> jsnum" where
  "to_number None = NaN"
| "to_number (Some x) = x"

definition isNaN :: "jsnum option \<Rightarrow> bool" where
  "isNaN v = (to_number v = NaN)"

text \<open>Element \<open>i\<close> of an array, \<^verbatim>\<open>undefined\<close> past its end.\<close>

definition at_index :: "'a list \<Rightarrow> nat \<Rightarrow> 'a option" where
  "at_index xs i = (if i < length xs then Some (xs ! i) else None)"

section \<open>Options and payloads\<close>

text \<open>
  The option bag built by \<^verbatim>\<open>parseArgs\<close>. A field that starts as \<^verbatim>\<open>null\<close> is an
  option type, \<open>None\<close> standing for \<^verbatim>\<open>null\<close> and \<^verbatim>\<open>undefined\<close> alike.
\<close>

record opts =
  action :: string
  directorTool :: "string option"
  prompt :: "string option"
  negative :: "string option"
  ref :: "string option"
  refCaption :: string
  strength :: jsnum
  fidelity :: jsnum
  infoExtracted :: jsnum
  vibes :: "string list"
  vibeStrengths :: "jsnum list"
  vibeInfos :: "jsnum list"
  normalizeVibes :: bool
  image :: "string option"
  mask :: "string option"
  magnitude :: "jsnum option"
  enhanceStrength :: "jsnum option"
  enhanceNoise :: "jsnum option"
  upscale :: jsnum
  inpaintStrength :: jsnum
  regions :: "string list"
  invertMask :: bool
  detect :: "string option"
  defry :: jsnum
  emotionLevel :: jsnum
  width :: jsnum
  height :: jsnum
  scale :: jsnum
  steps :: jsnum
  seed :: "jsnum option"
  cfgRescale :: jsnum
  sampler :: string
  noiseSchedule :: string
  smea :: bool
  smeaDyn :: bool
  autoSmea :: bool
  out :: string
  "help" :: bool

text \<open>
  The wire objects. A field of \<open>params\<close> that shares its name with a field of \<open>opts\<close>
  carries a prime; a field that only some builders add is an option, \<open>None\<close> when the
  property is absent.
\<close>

record caption_obj =
  base_caption :: string
  char_captions :: "string list"

record v4_prompt_obj =
  caption :: caption_obj
  use_coords :: bool
  use_order :: bool

record v4_uc_obj =
  caption' :: caption_obj
  legacy_uc :: bool

record params =
  params_version :: nat
  width' :: jsnum
  height' :: jsnum
  scale' :: jsnum
  sampler' :: string
  steps' :: jsnum
  seed' :: jsnum
  n_samples :: nat
  ucPreset :: nat
  qualityToggle :: bool
  sm :: bool
  sm_dyn :: bool
  dynamic_thresholding :: bool
  cfg_rescale :: jsnum
  noise_schedule :: string
  normalize_reference_strength_multiple :: bool
  prefer_brownian :: bool
  v4_prompt :: v4_prompt_obj
  v4_negative_prompt :: v4_uc_obj
  negative_prompt :: string
  director_reference_images :: "string list option"
  director_reference_descriptions :: "v4_uc_obj list option"
  director_reference_information_extracted :: "jsnum list option"
  director_reference_strength_values :: "jsnum list option"
  director_reference_secondary_strength_values :: "jsnum list option"
  reference_image_multiple :: "string list option"
  reference_information_extracted_multiple :: "jsnum list option"
  reference_strength_multiple :: "jsnum list option"
  image' :: "string option"
  mask' :: "string option"
  strength' :: "jsnum option"
  noise :: "jsnum option"
  extra_noise_seed :: "jsnum option"

record payload =
  input :: "string option"
  model :: string
  action' :: string
  parameters :: params

text \<open>\<^verbatim>\<open>s || ""\<close> on a string that may be null.\<close>

fun or_empty :: "string option \<Rightarrow> string" where
  "or_empty None = []"
| "or_empty (Some s) = (if s = [] then [] else s)"

text \<open>The truth value of a string that may be null: null and the empty string are falsy.\<close>

fun truthy :: "string option \<Rightarrow> bool" where
  "truthy None = False"
| "truthy (Some s) = (s \<noteq> [])"

section \<open>Payload builders\<close>

text \<open>
  \<^verbatim>\<open>baseParams\<close>. The second argument is the value \<^verbatim>\<open>Math.random()\<close> returns when
  the seed has to be drawn.
\<close>

definition baseParams :: "opts \<Rightarrow> jsnum \<Rightarrow> params" where
  "baseParams opts rnd =
     (let seed0 = (case seed opts of
                     Some s \<Rightarrow> s
                   | None \<Rightarrow> js_floor (js_mul rnd (Num (2 ^ 32))));
          negPrompt = or_empty (negative opts);
          isHighRes = js_gt (js_mul (width opts) (height opts)) (js_mul (Num 1024) (Num 1024));
          sm0 = smea opts;
          smDyn = (if autoSmea opts \<and> isHighRes \<and> \<not> sm0 \<and> \<not> smeaDyn opts
                   then True else smeaDyn opts)
      in \<lparr> params_version = 3,
           width' = width opts,
           height' = height opts,
           scale' = scale opts,
           sampler' = sampler opts,
           steps' = steps opts,
           seed' = seed0,
           n_samples = 1,
           ucPreset = 0,
           qualityToggle = True,
           sm = sm0,
           sm_dyn = smDyn,
           dynamic_thresholding = False,
           cfg_rescale = cfgRescale opts,
           noise_schedule = noiseSchedule opts,
           normalize_reference_strength_multiple = True,
           prefer_brownian = True,
           v4_prompt = \<lparr> caption = \<lparr> base_caption = or_empty (prompt opts),
                                        char_captions = [] \<rparr>,
                         use_coords = False, use_order = True \<rparr>,
           v4_negative_prompt = \<lparr> caption' = \<lparr> base_caption = negPrompt,
                                                  char_captions = [] \<rparr>,
                                  legacy_uc = False \<rparr>,
           negative_prompt = negPrompt,
           director_reference_images = None,
           director_reference_descriptions = None,
           director_reference_information_extracted = None,
           director_reference_strength_values = None,
           director_reference_secondary_strength_values = None,
           reference_image_multiple = None,
           reference_information_extracted_multiple = None,
           reference_strength_multiple = None,
           image' = None,
           mask' = None,
           strength' = None,
           noise = None,
           extra_noise_seed = None \<rparr>)"

definition mk_payload :: "opts \<Rightarrow> string \<Rightarrow> params \<Rightarrow> payload" where
  "mk_payload opts act ps =
     \<lparr> input = prompt opts, model = ''nai-diffusion-4-5-full'', action' = act,
       parameters = ps \<rparr>"

definition buildGeneratePayload :: "opts \<Rightarrow> string option \<Rightarrow> jsnum \<Rightarrow> payload" where
  "buildGeneratePayload opts refBase64 rnd =
     (let ps = baseParams opts rnd;
          ps1 = (if truthy refBase64
                 then ps \<lparr> director_reference_images := Some [the refBase64],
                           director_reference_descriptions :=
                             Some [\<lparr> caption' = \<lparr> base_caption = refCaption opts,
                                                   char_captions = [] \<rparr>,
                                     legacy_uc = False \<rparr>],
                           director_reference_information_extracted := Some [infoExtracted opts],
                           director_reference_strength_values := Some [strength opts],
                           director_reference_secondary_strength_values := Some [fidelity opts] \<rparr>
                 else ps)
      in mk_payload opts ''generate'' ps1)"

text \<open>\<^verbatim>\<open>xs[i] ?? d\<close> for every index of the vibe images.\<close>

definition positional_default :: "jsnum list \<Rightarrow> jsnum \<Rightarrow> nat \<Rightarrow> jsnum list" where
  "positional_default xs d n =
     map (\<lambda>i. case at_index xs i of Some v \<Rightarrow> v | None \<Rightarrow> d) [0..<n]"

definition buildVibePayload :: "opts \<Rightarrow> string list \<Rightarrow> jsnum \<Rightarrow> payload" where
  "buildVibePayload opts vibeBase64s rnd =
     (let ps = baseParams opts rnd;
          strengths = positional_default (vibeStrengths opts) (fl (6 / 10)) (length vibeBase64s);
          infos = positional_default (vibeInfos opts) (Num 1) (length vibeBase64s)
      in mk_payload opts ''generate''
           (ps \<lparr> reference_image_multiple := Some vibeBase64s,
                  reference_information_extracted_multiple := Some infos,
                  reference_strength_multiple := Some strengths \<rparr>))"

definition buildEnhancePayload :: "opts \<Rightarrow> string \<Rightarrow> jsnum \<Rightarrow> jsnum \<Rightarrow> jsnum \<Rightarrow> payload" where
  "buildEnhancePayload opts imageBase64 imgWidth imgHeight rnd =
     (let ps = baseParams opts rnd;
          ps1 = ps \<lparr> width' := imgWidth, height' := imgHeight, image' := Some imageBase64 \<rparr>;
          ps2 = (case magnitude opts of
                   Some m \<Rightarrow> ps1 \<lparr> strength' := Some m,
                                   noise := Some (js_min (js_mul m (fl (3 / 10))) (fl (3 / 10))) \<rparr>
                 | None \<Rightarrow> ps1);
          ps3 = (case enhanceStrength opts of
                   Some s \<Rightarrow> ps2 \<lparr> strength' := Some s \<rparr>
                 | None \<Rightarrow> ps2);
          ps4 = (case enhanceNoise opts of
                   Some n \<Rightarrow> ps3 \<lparr> noise := Some n \<rparr>
                 | None \<Rightarrow> ps3);
          ps5 = (if strength' ps4 = None then ps4 \<lparr> strength' := Some (fl (5 / 10)) \<rparr> else ps4);
          ps6 = (if noise ps5 = None then ps5 \<lparr> noise := Some (fl (1 / 10)) \<rparr> else ps5);
          ps7 = ps6 \<lparr> extra_noise_seed := Some (seed' ps6) \<rparr>;
          ps8 = (if js_gt (upscale opts) (Num 1)
                 then ps7 \<lparr> width' := js_mul imgWidth (upscale opts),
                            height' := js_mul imgHeight (upscale opts) \<rparr>
                 else ps7)
      in mk_payload opts ''img2img'' ps8)"

definition buildInpaintPayload :: "opts \<Rightarrow> string \<Rightarrow> string \<Rightarrow> jsnum \<Rightarrow> payload" where
  "buildInpaintPayload opts imageBase64 maskBase64 rnd =
     (let ps = baseParams opts rnd
      in mk_payload opts ''infill''
           (ps \<lparr> image' := Some imageBase64,
                  mask' := Some maskBase64,
                  strength' := Some (inpaintStrength opts),
                  extra_noise_seed := Some (seed' ps) \<rparr>))"

text \<open>The option bag as \<^verbatim>\<open>parseArgs\<close> initialises it, before any argument is read.\<close>

definition default_opts :: opts where
  "default_opts =
     \<lparr> action = ''generate'', directorTool = None, prompt = None, negative = None,
       ref = None, refCaption = ''character&style'', strength = Num 1, fidelity = Num 0,
       infoExtracted = Num 1, vibes = [], vibeStrengths = [], vibeInfos = [],
       normalizeVibes = True, image = None, mask = None, magnitude = None,
       enhanceStrength = None, enhanceNoise = None, upscale = Num 1,
       inpaintStrength = fl (7 / 10), regions = [], invertMask = False, detect = None,
       defry = Num 0, emotionLevel = fl (5 / 10), width = Num 832, height = Num 1216,
       scale = Num 6, steps = Num 28, seed = None, cfgRescale = fl (4 / 10),
       sampler = ''k_euler_ancestral'', noiseSchedule = ''karras'', smea = False,
       smeaDyn = False, autoSmea = True, out = ''output'', help = False \<rparr>"

section \<open>Canvas selection\<close>

record resolution =
  res_w :: jsnum
  res_h :: jsnum
  res_label :: string

definition LARGE_RESOLUTIONS :: "resolution list" where
  "LARGE_RESOLUTIONS =
     [\<lparr> res_w = Num 1024, res_h = Num 1536, res_label = ''portrait'' \<rparr>,
      \<lparr> res_w = Num 1472, res_h = Num 1472, res_label = ''square'' \<rparr>,
      \<lparr> res_w = Num 1536, res_h = Num 1024, res_label = ''landscape'' \<rparr>]"

text \<open>\<^verbatim>\<open>Math.abs(aspect - res.w / res.h)\<close>\<close>

definition aspect_diff :: "jsnum \<Rightarrow> resolution \<Rightarrow> jsnum" where
  "aspect_diff aspect res =
     js_abs (js_sub aspect (js_div (res_w res) (res_h res)))"

text \<open>The loop of \<^verbatim>\<open>prepareReferenceImage\<close> over the candidates, on the pair
  \<open>(best, bestDiff)\<close>.\<close>

fun pick_closest :: "jsnum \<Rightarrow> resolution list \<Rightarrow> resolution \<times> jsnum \<Rightarrow> resolution \<times> jsnum" where
  "pick_closest aspect [] st = st"
| "pick_closest aspect (res # rest) (best, bestDiff) =
     (let diff = aspect_diff aspect res
      in if js_lt diff bestDiff then pick_closest aspect rest (res, diff)
         else pick_closest aspect rest (best, bestDiff))"

text \<open>
  The canvas \<^verbatim>\<open>prepareReferenceImage\<close> resizes to (its variable \<^verbatim>\<open>best\<close>), from the
  width and height of the image metadata; a missing one is \<^verbatim>\<open>undefined\<close>.
\<close>

definition prepareReferenceImage_best :: "jsnum option \<Rightarrow> jsnum option \<Rightarrow> resolution" where
  "prepareReferenceImage_best meta_width meta_height =
     (let aspect = js_div (to_number meta_width) (to_number meta_height)
      in fst (pick_closest aspect LARGE_RESOLUTIONS (LARGE_RESOLUTIONS ! 0, PInf)))"

text \<open>
  The selection as the specification words it, on exact ratios: the distance of the
  image's aspect ratio to a canvas's aspect ratio, and the first canvas of the list at
  the least distance.
\<close>

fun num_val :: "jsnum \<Rightarrow> rat" where
  "num_val (Num q) = q"
| "num_val _ = 0"

definition exact_aspect_diff :: "int \<Rightarrow> int \<Rightarrow> resolution \<Rightarrow> rat" where
  "exact_aspect_diff iw ih res =
     \<bar>of_int iw / of_int ih - num_val (res_w res) / num_val (res_h res)\<bar>"

fun first_minimal :: "('a \<Rightarrow> rat) \<Rightarrow> 'a \<Rightarrow> 'a list \<Rightarrow> 'a" where
  "first_minimal d best [] = best"
| "first_minimal d best (x # xs) = first_minimal d (if d x < d best then x else best) xs"

definition spec_canvas :: "int \<Rightarrow> int \<Rightarrow> resolution" where
  "spec_canvas iw ih =
     first_minimal (exact_aspect_diff iw ih) (hd LARGE_RESOLUTIONS) (tl LARGE_RESOLUTIONS)"

section \<open>Errors\<close>

text \<open>
  Every \<^verbatim>\<open>throw\<close> of the modelled functions: the invalid-region error of
  \<^verbatim>\<open>createMask\<close> (with the offending region string), the missing-image error of
  \<^verbatim>\<open>extractPng\<close>, the failure of the archive library on bytes that are no archive, a
  type error of the language (destructuring or dereferencing \<^verbatim>\<open>undefined\<close>), and an
  error raised by the raster library (with its message).
\<close>

datatype error =
    InvalidRegion string
  | NoPngFound
  | InvalidZipFormat
  | TypeError
  | LibraryError string

section \<open>Response unwrapping\<close>

type_synonym bytes = "nat list"

record zip_entry =
  entryName :: string
  getData :: bytes

text \<open>
  The bytes of a response as \<^verbatim>\<open>new AdmZip(buffer)\<close> sees them: a zip archive with
  its entries in order, or bytes that are no archive, on which the constructor throws.
\<close>

datatype response_body = ZipArchive "zip_entry list" | NotZip bytes

fun extractPng :: "response_body \<Rightarrow> error + bytes" where
  "extractPng (NotZip b) = Inl InvalidZipFormat"
| "extractPng (ZipArchive entries) =
     (case find (\<lambda>e. suffix ''.png'' (entryName e)) entries of
        None \<Rightarrow> Inl NoPngFound
      | Some png \<Rightarrow> Inr (getData png))"

text \<open>
  The director branch of \<^verbatim>\<open>main\<close>, from the response of \<^verbatim>\<open>callDirector\<close> to the
  bytes written to the output file.
\<close>

definition main_director_png :: "response_body \<Rightarrow> error + bytes" where
  "main_director_png result = extractPng result"

section \<open>Detections to regions\<close>

text \<open>
  A detection as parsed from the vision model's JSON. A property that is absent is
  \<open>None\<close>; a box is taken to be an array of numbers, of any length.
\<close>

record detection =
  label :: "string option"
  box_2d :: "jsnum list option"
  issue :: "string option"

text \<open>The four numbers of the region string \<^verbatim>\<open>`${px},${py},${pw},${ph}`\<close>.\<close>

record region =
  px :: jsnum
  py :: jsnum
  pw :: jsnum
  ph :: jsnum

text \<open>The body of the loop of \<^verbatim>\<open>analyzeImage\<close> up to the region of one box.\<close>

definition box_region :: "jsnum \<Rightarrow> jsnum \<Rightarrow> jsnum list \<Rightarrow> region" where
  "box_region w h box =
     (let yMin = to_number (at_index box 0);
          xMin = to_number (at_index box 1);
          yMax = to_number (at_index box 2);
          xMax = to_number (at_index box 3)
      in \<lparr> px = js_round (js_mul (js_div xMin (Num 1000)) w),
           py = js_round (js_mul (js_div yMin (Num 1000)) h),
           pw = js_round (js_mul (js_div (js_sub xMax xMin) (Num 1000)) w),
           ph = js_round (js_mul (js_div (js_sub yMax yMin) (Num 1000)) h) \<rparr>)"

text \<open>
  The loop over the detections, with \<^verbatim>\<open>regionFlags\<close> as accumulator. Destructuring a
  missing box throws, and so does \<^verbatim>\<open>det.label.padEnd\<close> on a missing label, after the
  region has been pushed.
\<close>

fun regions_loop :: "jsnum \<Rightarrow> jsnum \<Rightarrow> detection list \<Rightarrow> region list \<Rightarrow> error + region list" where
  "regions_loop w h [] regionFlags = Inr regionFlags"
| "regions_loop w h (det # rest) regionFlags =
     (case box_2d det of
        None \<Rightarrow> Inl TypeError
      | Some box \<Rightarrow>
          (case label det of
             None \<Rightarrow> Inl TypeError
           | Some l \<Rightarrow> regions_loop w h rest (regionFlags @ [box_region w h box])))"

text \<open>
  \<^verbatim>\<open>analyzeImage\<close> from the parsed detections on: the regions it prints, for an image
  of width \<open>w\<close> and height \<open>h\<close>. An empty array prints none.
\<close>

definition analyzeImage_regions :: "jsnum \<Rightarrow> jsnum \<Rightarrow> detection list \<Rightarrow> error + region list" where
  "analyzeImage_regions w h detections =
     (if detections = [] then Inr [] else regions_loop w h detections [])"

section \<open>Region strings\<close>

text \<open>
  \<^verbatim>\<open>Number(s)\<close> on a string: surrounding white space is dropped; the empty string is
  0; then come \<^verbatim>\<open>Infinity\<close> with an optional sign, an unsigned hexadecimal, octal or
  binary literal, or a decimal literal with an optional sign, fraction and exponent, whose
  value is rounded to binary64; anything else is NaN. Strings are sequences of 8-bit
  characters here, so the white space recognised is that of this range: tab, line feed,
  vertical tab, form feed, carriage return, space and the no-break space U+00A0.
\<close>

definition is_space :: "char \<Rightarrow> bool" where
  "is_space c = (c = CHR '' '' \<or> c = CHR 0x09 \<or> c = CHR 0x0A \<or> c = CHR 0x0B
                 \<or> c = CHR 0x0C \<or> c = CHR 0x0D \<or> c = CHR 0xA0)"

definition trim :: "string \<Rightarrow> string" where
  "trim s = rev (dropWhile is_space (rev (dropWhile is_space s)))"

text \<open>The value of a character as a digit, for the bases up to 16.\<close>

definition digit_table :: "(char \<times> int) list" where
  "digit_table = zip ''0123456789abcdefABCDEF'' ([0..15] @ [10..15])"

definition digit_of :: "char \<Rightarrow> int option" where
  "digit_of c = map_of digit_table c"

definition is_digit :: "int \<Rightarrow> char \<Rightarrow> bool" where
  "is_digit base c = (case digit_of c of None \<Rightarrow> False | Some d \<Rightarrow> d < base)"

definition digits_value :: "int \<Rightarrow> string \<Rightarrow> int" where
  "digits_value base ds = foldl (\<lambda>acc c. acc * base + the (digit_of c)) 0 ds"

text \<open>A literal with a radix prefix: at least one digit of the base, and nothing else.\<close>

definition radix_literal :: "int \<Rightarrow> string \<Rightarrow> jsnum" where
  "radix_literal base ds =
     (if ds \<noteq> [] \<and> list_all (is_digit base) ds then fl (of_int (digits_value base ds))
      else NaN)"

definition pow10 :: "int \<Rightarrow> rat" where
  "pow10 k = (if 0 \<le> k then 10 ^ nat k else 1 / 10 ^ nat (- k))"

text \<open>The exponent part of a decimal literal: absent, or \<^verbatim>\<open>e\<close> with an optional sign and
  at least one digit.\<close>

definition exponent_part :: "string \<Rightarrow> int option" where
  "exponent_part s =
     (if s = [] then Some 0
      else if hd s = CHR ''e'' \<or> hd s = CHR ''E'' then
        (let r = tl s;
             neg = (r \<noteq> [] \<and> hd r = CHR ''-'');
             ds = (if r \<noteq> [] \<and> (hd r = CHR ''-'' \<or> hd r = CHR ''+'') then tl r else r)
         in if ds \<noteq> [] \<and> list_all (is_digit 10) ds
            then Some (if neg then - digits_value 10 ds else digits_value 10 ds)
            else None)
      else None)"

text \<open>An unsigned decimal literal, as the exact rational it denotes.\<close>

definition unsigned_decimal :: "string \<Rightarrow> rat option" where
  "unsigned_decimal s =
     (let ip = takeWhile (is_digit 10) s;
          r1 = dropWhile (is_digit 10) s;
          dot = (r1 \<noteq> [] \<and> hd r1 = CHR ''.'');
          fp = (if dot then takeWhile (is_digit 10) (tl r1) else []);
          r2 = (if dot then dropWhile (is_digit 10) (tl r1) else r1)
      in if ip = [] \<and> fp = [] then None
         else (case exponent_part r2 of
                 None \<Rightarrow> None
               | Some e \<Rightarrow>
                   Some (of_int (digits_value 10 (ip @ fp)) * pow10 (e - int (length fp)))))"

definition signed_decimal :: "string \<Rightarrow> jsnum" where
  "signed_decimal s =
     (let neg = (s \<noteq> [] \<and> hd s = CHR ''-'');
          body = (if s \<noteq> [] \<and> (hd s = CHR ''-'' \<or> hd s = CHR ''+'') then tl s else s)
      in if body = ''Infinity'' then signed_inf neg
         else (case unsigned_decimal body of
                 None \<Rightarrow> NaN
               | Some q \<Rightarrow> fl (if neg then - q else q)))"

definition Number_js :: "string \<Rightarrow> jsnum" where
  "Number_js s =
     (let t = trim s
      in if t = [] then Num 0
         else if take 2 t = ''0x'' \<or> take 2 t = ''0X'' then radix_literal 16 (drop 2 t)
         else if take 2 t = ''0o'' \<or> take 2 t = ''0O'' then radix_literal 8 (drop 2 t)
         else if take 2 t = ''0b'' \<or> take 2 t = ''0B'' then radix_literal 2 (drop 2 t)
         else signed_decimal t)"

text \<open>\<^verbatim>\<open>s.split(",")\<close>: the pieces between the commas; the empty string has one piece.\<close>

fun split_comma :: "string \<Rightarrow> string list" where
  "split_comma [] = [[]]"
| "split_comma (c # cs) =
     (if c = CHR '','' then [] # split_comma cs
      else (case split_comma cs of
              [] \<Rightarrow> [[c]]
            | p # ps \<Rightarrow> (c # p) # ps))"

text \<open>\<^verbatim>\<open>regionStr.split(",").map(Number)\<close>\<close>

definition region_numbers :: "string \<Rightarrow> jsnum list" where
  "region_numbers regionStr = map Number_js (split_comma regionStr)"

text \<open>The test \<^verbatim>\<open>[rx, ry, rw, rh].some(isNaN)\<close> on the destructured numbers.\<close>

definition has_nan_component :: "string \<Rightarrow> bool" where
  "has_nan_component regionStr =
     (let ns = region_numbers regionStr
      in isNaN (at_index ns 0) \<or> isNaN (at_index ns 1)
         \<or> isNaN (at_index ns 2) \<or> isNaN (at_index ns 3))"

section \<open>Mask creation\<close>

text \<open>
  The raster library (\<^verbatim>\<open>sharp\<close>) is not part of the source. \<^verbatim>\<open>createMask\<close> is
  modelled over any implementation of the four operations it calls, each of which may
  fail with a message of the library: reading the dimensions of an image file, creating a
  canvas of one colour (grey level 0 for black, 255 for white), compositing overlays at
  their left and top offsets, and negating.
\<close>

record 'r raster_lib =
  lib_metadata :: "string \<Rightarrow> string + jsnum \<times> jsnum"
  lib_create :: "jsnum \<Rightarrow> jsnum \<Rightarrow> nat \<Rightarrow> string + 'r"
  lib_composite :: "'r \<Rightarrow> ('r \<times> jsnum \<times> jsnum) list \<Rightarrow> string + 'r"
  lib_negate :: "'r \<Rightarrow> string + 'r"

fun lib_result :: "string + 'a \<Rightarrow> error + 'a" where
  "lib_result (Inl msg) = Inl (LibraryError msg)"
| "lib_result (Inr v) = Inr v"

text \<open>The loop of \<^verbatim>\<open>createMask\<close> over the region strings, with \<^verbatim>\<open>overlays\<close> as
  accumulator.\<close>

fun build_overlays ::
  "'r raster_lib \<Rightarrow> string list \<Rightarrow> ('r \<times> jsnum \<times> jsnum) list \<Rightarrow> error + ('r \<times> jsnum \<times> jsnum) list"
where
  "build_overlays lib [] overlays = Inr overlays"
| "build_overlays lib (regionStr # rest) overlays =
     (let ns = region_numbers regionStr;
          rx = at_index ns 0; ry = at_index ns 1; rw = at_index ns 2; rh = at_index ns 3
      in if isNaN rx \<or> isNaN ry \<or> isNaN rw \<or> isNaN rh then Inl (InvalidRegion regionStr)
         else (case lib_result (lib_create lib (to_number rw) (to_number rh) 255) of
                 Inl e \<Rightarrow> Inl e
               | Inr rect \<Rightarrow>
                   build_overlays lib rest (overlays @ [(rect, to_number rx, to_number ry)])))"

text \<open>The dimensions of the mask: those of the source image when one is given, else the
  width and height of the options.\<close>

definition mask_dimensions :: "'r raster_lib \<Rightarrow> opts \<Rightarrow> error + jsnum \<times> jsnum" where
  "mask_dimensions lib opts =
     (if truthy (image opts) then lib_result (lib_metadata lib (the (image opts)))
      else Inr (width opts, height opts))"

text \<open>
  \<^verbatim>\<open>createMask\<close>, up to the raster it writes to the output file. The black canvas
  built first is replaced in both branches (by a second black canvas with the overlays
  composited on it, or by a white canvas), but building it already validates the
  dimensions.
\<close>

definition createMask :: "'r raster_lib \<Rightarrow> opts \<Rightarrow> error + 'r" where
  "createMask lib opts =
     (case mask_dimensions lib opts of
        Inl e \<Rightarrow> Inl e
      | Inr (w, h) \<Rightarrow>
          (case lib_result (lib_create lib w h 0) of
             Inl e \<Rightarrow> Inl e
           | Inr black \<Rightarrow>
               (case (if regions opts \<noteq> []
                      then (case build_overlays lib (regions opts) [] of
                              Inl e \<Rightarrow> Inl e
                            | Inr overlays \<Rightarrow>
                                (case lib_result (lib_create lib w h 0) of
                                   Inl e \<Rightarrow> Inl e
                                 | Inr canvas \<Rightarrow>
                                     lib_result (lib_composite lib canvas overlays)))
                      else lib_result (lib_create lib w h 255)) of
                  Inl e \<Rightarrow> Inl e
                | Inr mask0 \<Rightarrow>
                    if invertMask opts then lib_result (lib_negate lib mask0) else Inr mask0)))"

text \<open>
  Modelled from the spec: the raster library, which the source imports. A raster is a
  list of rows of grey levels (the three channels of a pixel are equal). A canvas needs a
  positive integer width and height; an overlay needs integer offsets; compositing paints
  the overlays in listed order and discards paint that falls outside the canvas; negation
  replaces a level \<open>v\<close> by \<open>255 - v\<close>. The argument \<open>files\<close> gives the dimensions of the
  readable image files.
\<close>

type_synonym raster = "nat list list"

fun int_of :: "jsnum \<Rightarrow> int option" where
  "int_of (Num q) = (if of_int \<lfloor>q\<rfloor> = q then Some \<lfloor>q\<rfloor> else None)"
| "int_of _ = None"

definition is_pos_int :: "jsnum \<Rightarrow> bool" where
  "is_pos_int x = (case int_of x of None \<Rightarrow> False | Some n \<Rightarrow> 0 < n)"

definition uniform :: "nat \<Rightarrow> nat \<Rightarrow> nat \<Rightarrow> raster" where
  "uniform w h c = replicate h (replicate w c)"

definition spec_create :: "jsnum \<Rightarrow> jsnum \<Rightarrow> nat \<Rightarrow> string + raster" where
  "spec_create w h c =
     (if is_pos_int w \<and> is_pos_int h
      then Inr (uniform (nat (the (int_of w))) (nat (the (int_of h))) c)
      else Inl ''Expected valid width, height and channels to create a new input image'')"

definition paint :: "raster \<Rightarrow> raster \<times> int \<times> int \<Rightarrow> raster" where
  "paint base ov =
     (case ov of (img, left_off, top_off) \<Rightarrow>
        map (\<lambda>y. map (\<lambda>x. let oy = int y - top_off; ox = int x - left_off
                         in if 0 \<le> oy \<and> oy < int (length img)
                               \<and> 0 \<le> ox \<and> ox < int (length (img ! nat oy))
                            then img ! nat oy ! nat ox
                            else base ! y ! x)
                    [0..<length (base ! y)])
            [0..<length base])"

definition spec_composite :: "raster \<Rightarrow> (raster \<times> jsnum \<times> jsnum) list \<Rightarrow> string + raster" where
  "spec_composite base overlays =
     (if list_all (\<lambda>(img, left_off, top_off). int_of left_off \<noteq> None \<and> int_of top_off \<noteq> None)
           overlays
      then Inr (foldl paint base
                  (map (\<lambda>(img, left_off, top_off).
                          (img, the (int_of left_off), the (int_of top_off))) overlays))
      else Inl ''Expected integer for left and top'')"

definition spec_negate :: "raster \<Rightarrow> string + raster" where
  "spec_negate r = Inr (map (map (\<lambda>v. 255 - v)) r)"

definition spec_metadata :: "(string \<rightharpoonup> nat \<times> nat) \<Rightarrow> string \<Rightarrow> string + jsnum \<times> jsnum" where
  "spec_metadata files path =
     (case files path of
        None \<Rightarrow> Inl ''Input file is missing or of an unsupported image format''
      | Some (w, h) \<Rightarrow> Inr (Num (of_nat w), Num (of_nat h)))"

definition spec_raster :: "(string \<rightharpoonup> nat \<times> nat) \<Rightarrow> raster raster_lib" where
  "spec_raster files =
     \<lparr> lib_metadata = spec_metadata files, lib_create = spec_create,
       lib_composite = spec_composite, lib_negate = spec_negate \<rparr>"

section \<open>Notions used to state the properties of mask creation\<close>

text \<open>The white rectangle \<^verbatim>\<open>createMask\<close> asks the library for, for one region string.\<close>

definition white_rect :: "'r raster_lib \<Rightarrow> string \<Rightarrow> string + 'r" where
  "white_rect lib regionStr =
     lib_create lib (to_number (at_index (region_numbers regionStr) 2))
       (to_number (at_index (region_numbers regionStr) 3)) 255"

text \<open>
  A region string whose first four numbers are integers, as the rectangle
  \<open>(x, y, width, height)\<close>; a rectangle that lies within a canvas; a rectangle that
  covers the pixel of column \<open>i\<close> and row \<open>j\<close>.
\<close>

definition region_rect :: "string \<Rightarrow> (int \<times> int \<times> int \<times> int) option" where
  "region_rect regionStr =
     (let ns = region_numbers regionStr
      in case (int_of (to_number (at_index ns 0)), int_of (to_number (at_index ns 1)),
               int_of (to_number (at_index ns 2)), int_of (to_number (at_index ns 3))) of
           (Some x, Some y, Some w, Some h) \<Rightarrow> Some (x, y, w, h)
         | _ \<Rightarrow> None)"

definition fits :: "int \<Rightarrow> int \<Rightarrow> int \<times> int \<times> int \<times> int \<Rightarrow> bool" where
  "fits cw ch r = (case r of (x, y, w, h) \<Rightarrow>
     0 \<le> x \<and> 0 \<le> y \<and> 0 < w \<and> 0 < h \<and> x + w \<le> cw \<and> y + h \<le> ch)"

definition covers :: "int \<times> int \<times> int \<times> int \<Rightarrow> nat \<Rightarrow> nat \<Rightarrow> bool" where
  "covers r i j = (case r of (x, y, w, h) \<Rightarrow>
     x \<le> int i \<and> int i < x + w \<and> y \<le> int j \<and> int j < y + h)"

definition white_overlay :: "int \<times> int \<times> int \<times> int \<Rightarrow> raster \<times> int \<times> int" where
  "white_overlay r = (case r of (x, y, w, h) \<Rightarrow> (uniform (nat w) (nat h) 255, x, y))"

definition is_canvas :: "nat \<Rightarrow> nat \<Rightarrow> raster \<Rightarrow> bool" where
  "is_canvas cw ch m = (length m = ch \<and> (\<forall>j < ch. length (m ! j) = cw))"

section \<open>Properties of the payload builders\<close>

text \<open>Values of the arithmetic at the inputs named below, computed by the definitions.\<close>

lemma fl_1048576: "fl 1048576 = Num 1048576"
  by code_simp

lemma fl_2166784: "fl 2166784 = Num 2166784"
  by code_simp

lemma fl_1011712: "fl 1011712 = Num 1011712"
  by code_simp

lemma fl_4046848: "fl 4046848 = Num 4046848"
  by code_simp

lemma fl_1664: "fl 1664 = Num 1664"
  by code_simp

lemma fl_2432: "fl 2432 = Num 2432"
  by code_simp

lemma seed_of_half: "js_floor (js_mul (fl (1 / 2)) (Num 4294967296)) = Num 2147483648"
  by code_simp

lemma noise_of_half: "js_min (js_mul (fl (1 / 2)) (fl (3 / 10))) (fl (3 / 10)) = fl (3 / 20)"
  by code_simp

text \<open>
  C1. The parallel reference arrays are built in lock-step. With a reference image
  (a non-empty base64 string) the generate payload carries the five arrays
  \<^verbatim>\<open>director_reference_images\<close>, \<^verbatim>\<open>_descriptions\<close>, \<^verbatim>\<open>_information_extracted\<close>,
  \<^verbatim>\<open>_strength_values\<close> and \<^verbatim>\<open>_secondary_strength_values\<close>, each of length 1. With
  \<open>n\<close> vibe images the vibe payload carries the images themselves and two arrays of
  length \<open>n\<close>; position \<open>i\<close> of the strengths is the \<open>i\<close>-th supplied strength, or 0.6 when
  fewer than \<open>i + 1\<close> were supplied, and position \<open>i\<close> of the information values is the
  \<open>i\<close>-th supplied value, or 1.
\<close>

theorem reference_arrays_lock_step:
  "(truthy refBase64 \<longrightarrow>
      (let ps = parameters (buildGeneratePayload opts refBase64 rnd)
       in map_option length (director_reference_images ps) = Some 1
        \<and> map_option length (director_reference_descriptions ps) = Some 1
        \<and> map_option length (director_reference_information_extracted ps) = Some 1
        \<and> map_option length (director_reference_strength_values ps) = Some 1
        \<and> map_option length (director_reference_secondary_strength_values ps) = Some 1))
   \<and> (let ps = parameters (buildVibePayload opts vibeBase64s rnd); n = length vibeBase64s
      in reference_image_multiple ps = Some vibeBase64s
       \<and> map_option length (reference_information_extracted_multiple ps) = Some n
       \<and> map_option length (reference_strength_multiple ps) = Some n
       \<and> (\<forall>i < n. the (reference_strength_multiple ps) ! i
              = (if i < length (vibeStrengths opts) then vibeStrengths opts ! i else fl (6 / 10)))
       \<and> (\<forall>i < n. the (reference_information_extracted_multiple ps) ! i
              = (if i < length (vibeInfos opts) then vibeInfos opts ! i else Num 1)))"
  by (simp add: buildGeneratePayload_def buildVibePayload_def mk_payload_def Let_def
      positional_default_def at_index_def)

theorem reference_arrays_lock_step_witness:
  "truthy (Some ''iVBORw0KGgo='')
   \<and> map_option length (director_reference_images
         (parameters (buildGeneratePayload default_opts (Some ''iVBORw0KGgo='') (Num 0)))) = Some 1
   \<and> map_option length (director_reference_secondary_strength_values
         (parameters (buildGeneratePayload default_opts (Some ''iVBORw0KGgo='') (Num 0)))) = Some 1
   \<and> (1::nat) < length [''AAAA'', ''BBBB'']
   \<and> the (reference_strength_multiple
         (parameters (buildVibePayload (default_opts \<lparr> vibeStrengths := [fl (4 / 10)] \<rparr>)
            [''AAAA'', ''BBBB''] (Num 0)))) ! 1 = fl (6 / 10)
   \<and> the (reference_information_extracted_multiple
         (parameters (buildVibePayload (default_opts \<lparr> vibeStrengths := [fl (4 / 10)] \<rparr>)
            [''AAAA'', ''BBBB''] (Num 0)))) ! 1 = Num 1"
  using reference_arrays_lock_step [of "Some ''iVBORw0KGgo=''" default_opts "Num 0" "[]"]
    reference_arrays_lock_step [of None "default_opts \<lparr> vibeStrengths := [fl (4 / 10)] \<rparr>"
      "Num 0" "[''AAAA'', ''BBBB'']"]
  by (simp add: Let_def default_opts_def)

text \<open>
  C2. In the payload of each of the four builders (generate, vibe, enhance, inpaint), when
  the options carry a prompt, the flat field \<^verbatim>\<open>input\<close> and the caption
  \<^verbatim>\<open>v4_prompt.caption.base_caption\<close> both hold exactly that text; and the flat field
  \<^verbatim>\<open>negative_prompt\<close> always equals \<^verbatim>\<open>v4_negative_prompt.caption.base_caption\<close>.
\<close>

theorem prompt_text_duplicated:
  "prompt opts = Some p \<Longrightarrow>
     (\<forall>P \<in> {buildGeneratePayload opts refBase64 rnd, buildVibePayload opts vibeBase64s rnd,
              buildEnhancePayload opts img w h rnd, buildInpaintPayload opts img msk rnd}.
        input P = Some p
        \<and> base_caption (caption (v4_prompt (parameters P))) = p
        \<and> negative_prompt (parameters P)
            = base_caption (caption' (v4_negative_prompt (parameters P))))"
  by (simp add: buildGeneratePayload_def buildVibePayload_def buildEnhancePayload_def
      buildInpaintPayload_def mk_payload_def baseParams_def Let_def split: option.split)

theorem prompt_text_duplicated_witness:
  "prompt (default_opts \<lparr> prompt := Some ''1girl, solo'', negative := Some ''bad anatomy'' \<rparr>)
     = Some ''1girl, solo''
   \<and> input (buildInpaintPayload
         (default_opts \<lparr> prompt := Some ''1girl, solo'', negative := Some ''bad anatomy'' \<rparr>)
         ''AAAA'' ''BBBB'' (Num 0)) = Some ''1girl, solo''
   \<and> base_caption (caption (v4_prompt (parameters (buildInpaintPayload
         (default_opts \<lparr> prompt := Some ''1girl, solo'', negative := Some ''bad anatomy'' \<rparr>)
         ''AAAA'' ''BBBB'' (Num 0))))) = ''1girl, solo''
   \<and> negative_prompt (parameters (buildGeneratePayload
         (default_opts \<lparr> prompt := Some ''1girl, solo'', negative := Some ''bad anatomy'' \<rparr>)
         None (Num 0))) = ''bad anatomy''
   \<and> base_caption (caption' (v4_negative_prompt (parameters (buildGeneratePayload
         (default_opts \<lparr> prompt := Some ''1girl, solo'', negative := Some ''bad anatomy'' \<rparr>)
         None (Num 0))))) = ''bad anatomy''"
  using prompt_text_duplicated
    [of "default_opts \<lparr> prompt := Some ''1girl, solo'', negative := Some ''bad anatomy'' \<rparr>"
        "''1girl, solo''" None "Num 0" "[]" "''AAAA''" "Num 832" "Num 1216" "''BBBB''"]
  by (simp add: default_opts_def buildGeneratePayload_def mk_payload_def baseParams_def Let_def)

text \<open>
  C5. When neither \<^verbatim>\<open>smea\<close> nor \<^verbatim>\<open>smeaDyn\<close> is set and \<^verbatim>\<open>autoSmea\<close> is on:
  in a generate, vibe or inpaint payload \<^verbatim>\<open>sm_dyn\<close> is enabled exactly when the product
  of the payload's width and height exceeds \<open>1024 * 1024 = 1048576\<close>, so 1472 by 1472
  enables it and 832 by 1216 does not. In an enhance payload the toggle is still the one
  \<^verbatim>\<open>baseParams\<close> computed from the width and height of the options, although the
  builder then replaces the payload's width and height by the dimensions of the source
  image (times the upscale factor): there \<^verbatim>\<open>sm_dyn\<close> does not follow the payload's
  size.
\<close>

theorem sm_dyn_per_builder:
  "\<not> smea opts \<Longrightarrow> \<not> smeaDyn opts \<Longrightarrow> autoSmea opts \<Longrightarrow>
     (\<forall>P \<in> {buildGeneratePayload opts refBase64 rnd, buildVibePayload opts vibeBase64s rnd,
              buildInpaintPayload opts img msk rnd}.
        sm_dyn (parameters P)
          = js_gt (js_mul (width' (parameters P)) (height' (parameters P))) (Num 1048576)
        \<and> (width' (parameters P) = Num 1472 \<and> height' (parameters P) = Num 1472
              \<longrightarrow> sm_dyn (parameters P))
        \<and> (width' (parameters P) = Num 832 \<and> height' (parameters P) = Num 1216
              \<longrightarrow> \<not> sm_dyn (parameters P)))
     \<and> sm_dyn (parameters (buildEnhancePayload opts img iw ih rnd))
         = js_gt (js_mul (width opts) (height opts)) (Num 1048576)"
  by (simp add: buildGeneratePayload_def buildVibePayload_def buildInpaintPayload_def
      buildEnhancePayload_def mk_payload_def baseParams_def Let_def
      fl_1048576 fl_2166784 fl_1011712 js_gt_def split: option.split)

theorem sm_dyn_per_builder_witness:
  "\<not> smea default_opts \<and> \<not> smeaDyn default_opts \<and> autoSmea default_opts
   \<and> width' (parameters (buildGeneratePayload
         (default_opts \<lparr> width := Num 1472, height := Num 1472 \<rparr>) None (Num 0))) = Num 1472
   \<and> height' (parameters (buildGeneratePayload
         (default_opts \<lparr> width := Num 1472, height := Num 1472 \<rparr>) None (Num 0))) = Num 1472
   \<and> sm_dyn (parameters (buildGeneratePayload
         (default_opts \<lparr> width := Num 1472, height := Num 1472 \<rparr>) None (Num 0)))
   \<and> \<not> sm_dyn (parameters (buildGeneratePayload default_opts None (Num 0)))
   \<and> width' (parameters (buildEnhancePayload default_opts ''AAAA'' (Num 1472) (Num 1472) (Num 0)))
       = Num 1472
   \<and> height' (parameters (buildEnhancePayload default_opts ''AAAA'' (Num 1472) (Num 1472) (Num 0)))
       = Num 1472
   \<and> js_gt (js_mul (Num 1472) (Num 1472)) (Num 1048576)
   \<and> \<not> sm_dyn (parameters (buildEnhancePayload default_opts ''AAAA'' (Num 1472) (Num 1472) (Num 0)))
   \<and> width' (parameters (buildEnhancePayload (default_opts \<lparr> upscale := Num 2 \<rparr>)
         ''AAAA'' (Num 832) (Num 1216) (Num 0))) = Num 1664
   \<and> height' (parameters (buildEnhancePayload (default_opts \<lparr> upscale := Num 2 \<rparr>)
         ''AAAA'' (Num 832) (Num 1216) (Num 0))) = Num 2432
   \<and> js_gt (js_mul (Num 1664) (Num 2432)) (Num 1048576)
   \<and> \<not> sm_dyn (parameters (buildEnhancePayload (default_opts \<lparr> upscale := Num 2 \<rparr>)
         ''AAAA'' (Num 832) (Num 1216) (Num 0)))"
proof -
  let ?big = "default_opts \<lparr> width := Num 1472, height := Num 1472 \<rparr>"
  let ?up = "default_opts \<lparr> upscale := Num 2 \<rparr>"
  have flags: "\<not> smea default_opts" "\<not> smeaDyn default_opts" "autoSmea default_opts"
    "\<not> smea ?big" "\<not> smeaDyn ?big" "autoSmea ?big"
    "\<not> smea ?up" "\<not> smeaDyn ?up" "autoSmea ?up"
    by (simp_all add: default_opts_def)
  have dims: "width default_opts = Num 832" "height default_opts = Num 1216"
    "width ?up = Num 832" "height ?up = Num 1216"
    by (simp_all add: default_opts_def)
  have g1: "width' (parameters (buildGeneratePayload ?big None (Num 0))) = Num 1472"
      "height' (parameters (buildGeneratePayload ?big None (Num 0))) = Num 1472"
      "width' (parameters (buildGeneratePayload default_opts None (Num 0))) = Num 832"
      "height' (parameters (buildGeneratePayload default_opts None (Num 0))) = Num 1216"
    by (simp_all add: buildGeneratePayload_def mk_payload_def baseParams_def Let_def
        default_opts_def)
  have e1: "width' (parameters (buildEnhancePayload default_opts ''AAAA'' (Num 1472) (Num 1472) (Num 0)))
        = Num 1472"
      "height' (parameters (buildEnhancePayload default_opts ''AAAA'' (Num 1472) (Num 1472) (Num 0)))
        = Num 1472"
      "width' (parameters (buildEnhancePayload ?up ''AAAA'' (Num 832) (Num 1216) (Num 0))) = Num 1664"
      "height' (parameters (buildEnhancePayload ?up ''AAAA'' (Num 832) (Num 1216) (Num 0))) = Num 2432"
    by (simp_all add: buildEnhancePayload_def mk_payload_def baseParams_def Let_def
        default_opts_def js_gt_def fl_1664 fl_2432)
  have gt: "js_gt (js_mul (Num 1472) (Num 1472)) (Num 1048576)"
      "js_gt (js_mul (Num 1664) (Num 2432)) (Num 1048576)"
      "\<not> js_gt (js_mul (Num 832) (Num 1216)) (Num 1048576)"
    by (simp_all add: js_gt_def fl_2166784 fl_4046848 fl_1011712)
  from sm_dyn_per_builder [OF flags(4-6), of None "Num 0" "[]" "''AAAA''" "''BBBB''" "Num 1" "Num 1"] g1(1,2)
  have a: "sm_dyn (parameters (buildGeneratePayload ?big None (Num 0)))"
    by (simp add: fl_2166784 js_gt_def)
  from sm_dyn_per_builder [OF flags(1-3), of None "Num 0" "[]" "''AAAA''" "''BBBB''" "Num 1" "Num 1"] g1(3,4)
  have b: "\<not> sm_dyn (parameters (buildGeneratePayload default_opts None (Num 0)))"
    by (simp add: fl_1011712 js_gt_def)
  from sm_dyn_per_builder [OF flags(1-3), of None "Num 0" "[]" "''AAAA''" "''BBBB''"
      "Num 1472" "Num 1472"] dims(1,2) gt(3)
  have c: "\<not> sm_dyn (parameters (buildEnhancePayload default_opts ''AAAA'' (Num 1472) (Num 1472) (Num 0)))"
    by (simp add: fl_1011712 js_gt_def)
  from sm_dyn_per_builder [OF flags(7-9), of None "Num 0" "[]" "''AAAA''" "''BBBB''"
      "Num 832" "Num 1216"] dims(3,4) gt(3)
  have d: "\<not> sm_dyn (parameters (buildEnhancePayload ?up ''AAAA'' (Num 832) (Num 1216) (Num 0)))"
    by (simp add: fl_1011712 js_gt_def)
  from flags(1-3) g1(1,2) a b e1 gt(1,2) c d show ?thesis
    by (intro conjI)
qed

text \<open>
  C8. In the enhance payload the width and height are the decoded dimensions handed to the
  builder, whatever the width and height of the options; with an upscale factor above 1
  both are multiplied by it. A magnitude \<open>m\<close> gives strength \<open>m\<close> and noise
  \<open>min (m * 0.3) 0.3\<close>, each replaced by its explicit override when one is given. With
  upscale 2 and a decoded 832 by 1216 source the payload is 1664 by 2432.
\<close>

theorem enhance_geometry_and_strength:
  "(let P = parameters (buildEnhancePayload opts img w h rnd)
    in (\<not> js_gt (upscale opts) (Num 1) \<longrightarrow> width' P = w \<and> height' P = h)
     \<and> (js_gt (upscale opts) (Num 1) \<longrightarrow>
          width' P = js_mul w (upscale opts) \<and> height' P = js_mul h (upscale opts))
     \<and> (\<forall>m. magnitude opts = Some m \<longrightarrow>
          strength' P = Some (case enhanceStrength opts of Some s \<Rightarrow> s | None \<Rightarrow> m)
          \<and> noise P = Some (case enhanceNoise opts of Some n \<Rightarrow> n
                             | None \<Rightarrow> js_min (js_mul m (fl (3 / 10))) (fl (3 / 10))))
     \<and> (upscale opts = Num 2 \<and> w = Num 832 \<and> h = Num 1216 \<longrightarrow>
          width' P = Num 1664 \<and> height' P = Num 2432))"
  by (simp add: buildEnhancePayload_def mk_payload_def Let_def js_gt_def fl_1664 fl_2432
      split: option.split)

theorem enhance_geometry_and_strength_witness:
  "js_gt (upscale (default_opts \<lparr> magnitude := Some (fl (5 / 10)), upscale := Num 2 \<rparr>)) (Num 1)
   \<and> width' (parameters (buildEnhancePayload
         (default_opts \<lparr> magnitude := Some (fl (5 / 10)), upscale := Num 2 \<rparr>)
         ''AAAA'' (Num 832) (Num 1216) (Num 0))) = Num 1664
   \<and> height' (parameters (buildEnhancePayload
         (default_opts \<lparr> magnitude := Some (fl (5 / 10)), upscale := Num 2 \<rparr>)
         ''AAAA'' (Num 832) (Num 1216) (Num 0))) = Num 2432
   \<and> strength' (parameters (buildEnhancePayload
         (default_opts \<lparr> magnitude := Some (fl (5 / 10)), upscale := Num 2 \<rparr>)
         ''AAAA'' (Num 832) (Num 1216) (Num 0))) = Some (fl (5 / 10))
   \<and> noise (parameters (buildEnhancePayload
         (default_opts \<lparr> magnitude := Some (fl (5 / 10)), upscale := Num 2 \<rparr>)
         ''AAAA'' (Num 832) (Num 1216) (Num 0))) = Some (fl (15 / 100))
   \<and> \<not> js_gt (upscale default_opts) (Num 1)
   \<and> width' (parameters (buildEnhancePayload default_opts ''AAAA'' (Num 1000) (Num 1200) (Num 0)))
       = Num 1000"
  using enhance_geometry_and_strength
    [of "default_opts \<lparr> magnitude := Some (fl (5 / 10)), upscale := Num 2 \<rparr>"
        "''AAAA''" "Num 832" "Num 1216" "Num 0"]
    enhance_geometry_and_strength [of default_opts "''AAAA''" "Num 1000" "Num 1200" "Num 0"]
  by (simp add: Let_def default_opts_def js_gt_def noise_of_half fl_1664 fl_2432)

text \<open>
  C10. In an enhance payload and in an inpaint payload the parameter
  \<^verbatim>\<open>extra_noise_seed\<close> is present and equals the parameter \<^verbatim>\<open>seed\<close> of the same
  payload, whether the seed came from the options or was drawn.
\<close>

theorem extra_noise_seed_is_seed:
  "extra_noise_seed (parameters (buildEnhancePayload opts img w h rnd))
     = Some (seed' (parameters (buildEnhancePayload opts img w h rnd)))
   \<and> extra_noise_seed (parameters (buildInpaintPayload opts img msk rnd))
     = Some (seed' (parameters (buildInpaintPayload opts img msk rnd)))"
  by (simp add: buildEnhancePayload_def buildInpaintPayload_def mk_payload_def Let_def
      split: option.split)

theorem extra_noise_seed_is_seed_witness:
  "extra_noise_seed (parameters (buildEnhancePayload (default_opts \<lparr> seed := Some (Num 42) \<rparr>)
       ''AAAA'' (Num 832) (Num 1216) (Num 0))) = Some (Num 42)
   \<and> extra_noise_seed (parameters (buildInpaintPayload default_opts ''AAAA'' ''BBBB'' (fl (1 / 2))))
       = Some (Num 2147483648)"
  using extra_noise_seed_is_seed [of "default_opts \<lparr> seed := Some (Num 42) \<rparr>" "''AAAA''"
      "Num 832" "Num 1216" "Num 0" "''BBBB''"]
    extra_noise_seed_is_seed [of default_opts "''AAAA''" "Num 832" "Num 1216" "fl (1 / 2)" "''BBBB''"]
  by (simp add: buildEnhancePayload_def buildInpaintPayload_def mk_payload_def baseParams_def
      default_opts_def Let_def seed_of_half)

section \<open>Properties of the canvas selection\<close>

lemma fl_not_NaN: "fl q \<noteq> NaN"
  by (simp add: fl_def Let_def)

lemma js_sub_Num_not_NaN: "a \<noteq> NaN \<Longrightarrow> js_sub a (Num b) \<noteq> NaN"
  by (cases a) (auto simp: fl_not_NaN)

lemma js_abs_NaN: "js_abs a = NaN \<longleftrightarrow> a = NaN"
  by (cases a) auto

lemma ratio_portrait: "fl (2 / 3) = Num (6004799503160661 / 9007199254740992)"
  by code_simp

lemma ratio_square: "fl 1 = Num 1"
  by code_simp

lemma ratio_landscape: "fl (3 / 2) = Num (3 / 2)"
  by code_simp

lemma aspect_diff_NaN: "aspect_diff NaN r = NaN"
  by (simp add: aspect_diff_def)

lemma aspect_diff_not_NaN:
  "a \<noteq> NaN \<Longrightarrow> r \<in> set LARGE_RESOLUTIONS \<Longrightarrow> aspect_diff a r \<noteq> NaN"
  by (auto simp: aspect_diff_def LARGE_RESOLUTIONS_def js_abs_NaN js_sub_Num_not_NaN
      ratio_portrait ratio_square ratio_landscape)

lemma first_least_of_three:
  assumes "d0 \<noteq> NaN" "d1 \<noteq> NaN" "d2 \<noteq> NaN"
  shows "\<exists>k<3. fst (if js_lt d0 PInf
                    then (if js_lt d1 d0
                          then (if js_lt d2 d1 then (2::nat, d2) else (1, d1))
                          else (if js_lt d2 d0 then (2, d2) else (0, d0)))
                    else (if js_lt d1 PInf
                          then (if js_lt d2 d1 then (2, d2) else (1, d1))
                          else (if js_lt d2 PInf then (2, d2) else (0, PInf)))) = k
          \<and> (\<forall>j<3. \<not> js_lt ([d0, d1, d2] ! j) ([d0, d1, d2] ! k))
          \<and> (\<forall>j<k. js_lt ([d0, d1, d2] ! k) ([d0, d1, d2] ! j))"
  using assms
  by (cases d0; cases d1; cases d2) (auto simp: less_Suc_eq numeral_3_eq_3 numeral_2_eq_2)

lemma select_1000_1200:
  "prepareReferenceImage_best (Some (Num 1000)) (Some (Num 1200)) = LARGE_RESOLUTIONS ! 1"
  by code_simp

text \<open>
  C3, in the form that holds of the code. For every width and height of the metadata, the canvas selected is the
  first one of the list portrait 1024 by 1536, square 1472 by 1472, landscape 1536 by 1024
  at which the difference \<^verbatim>\<open>Math.abs(aspect - res.w / res.h)\<close>, as computed in
  binary64 arithmetic, is least: no canvas has a smaller computed difference, and every
  canvas before it in the list has a strictly larger one. The selection is a function of
  the two dimensions alone.
\<close>

theorem canvas_first_least_computed_diff:
  "\<exists>k < length LARGE_RESOLUTIONS.
      prepareReferenceImage_best mw mh = LARGE_RESOLUTIONS ! k
      \<and> (\<forall>j < length LARGE_RESOLUTIONS.
            \<not> js_lt (aspect_diff (js_div (to_number mw) (to_number mh)) (LARGE_RESOLUTIONS ! j))
                     (aspect_diff (js_div (to_number mw) (to_number mh)) (LARGE_RESOLUTIONS ! k)))
      \<and> (\<forall>j < k.
            js_lt (aspect_diff (js_div (to_number mw) (to_number mh)) (LARGE_RESOLUTIONS ! k))
                  (aspect_diff (js_div (to_number mw) (to_number mh)) (LARGE_RESOLUTIONS ! j)))"
proof -
  define a where "a = js_div (to_number mw) (to_number mh)"
  define r0 where "r0 = LARGE_RESOLUTIONS ! 0"
  define r1 where "r1 = LARGE_RESOLUTIONS ! 1"
  define r2 where "r2 = LARGE_RESOLUTIONS ! 2"
  have L: "LARGE_RESOLUTIONS = [r0, r1, r2]"
    by (simp add: r0_def r1_def r2_def LARGE_RESOLUTIONS_def)
  define d0 where "d0 = aspect_diff a r0"
  define d1 where "d1 = aspect_diff a r1"
  define d2 where "d2 = aspect_diff a r2"
  let ?pick = "(if js_lt d0 PInf
                then (if js_lt d1 d0
                      then (if js_lt d2 d1 then (2::nat, d2) else (1, d1))
                      else (if js_lt d2 d0 then (2, d2) else (0, d0)))
                else (if js_lt d1 PInf
                      then (if js_lt d2 d1 then (2, d2) else (1, d1))
                      else (if js_lt d2 PInf then (2, d2) else (0, PInf))))"
  have best: "prepareReferenceImage_best mw mh = [r0, r1, r2] ! fst ?pick"
    by (simp add: prepareReferenceImage_best_def a_def [symmetric] L Let_def
        d0_def [symmetric] d1_def [symmetric] d2_def [symmetric])
  show ?thesis
  proof (cases "a = NaN")
    case True
    then have "d0 = NaN" "d1 = NaN" "d2 = NaN"
      by (simp_all add: d0_def d1_def d2_def aspect_diff_NaN)
    then have "fst ?pick = 0"
      by simp
    with best have "prepareReferenceImage_best mw mh = LARGE_RESOLUTIONS ! 0"
      by (simp add: L)
    moreover have "\<forall>j < length LARGE_RESOLUTIONS.
        \<not> js_lt (aspect_diff a (LARGE_RESOLUTIONS ! j)) (aspect_diff a (LARGE_RESOLUTIONS ! 0))"
      using True by (simp add: aspect_diff_NaN)
    ultimately show ?thesis
      unfolding a_def [symmetric] by (intro exI [of _ 0]) (simp add: L)
  next
    case False
    have "r0 \<in> set LARGE_RESOLUTIONS" "r1 \<in> set LARGE_RESOLUTIONS" "r2 \<in> set LARGE_RESOLUTIONS"
      by (simp_all add: L)
    with False have "d0 \<noteq> NaN" "d1 \<noteq> NaN" "d2 \<noteq> NaN"
      by (simp_all add: d0_def d1_def d2_def aspect_diff_not_NaN)
    from first_least_of_three [OF this] obtain k where k: "k < 3" "fst ?pick = k"
      "\<forall>j<3. \<not> js_lt ([d0, d1, d2] ! j) ([d0, d1, d2] ! k)"
      "\<forall>j<k. js_lt ([d0, d1, d2] ! k) ([d0, d1, d2] ! j)"
      by blast
    have nth_d: "aspect_diff a ([r0, r1, r2] ! j) = [d0, d1, d2] ! j" if "j < 3" for j
      using that by (auto simp: less_Suc_eq numeral_3_eq_3 d0_def d1_def d2_def)
    have "prepareReferenceImage_best mw mh = LARGE_RESOLUTIONS ! k"
      using best k(2) by (simp add: L)
    moreover have "\<forall>j < length LARGE_RESOLUTIONS.
        \<not> js_lt (aspect_diff a (LARGE_RESOLUTIONS ! j)) (aspect_diff a (LARGE_RESOLUTIONS ! k))"
      using k(1,3) by (simp add: L nth_d)
    moreover have "\<forall>j < k.
        js_lt (aspect_diff a (LARGE_RESOLUTIONS ! k)) (aspect_diff a (LARGE_RESOLUTIONS ! j))"
    proof (intro allI impI)
      fix j assume "j < k"
      with k(1) have "j < 3" by simp
      from k(4) \<open>j < k\<close> have "js_lt ([d0, d1, d2] ! k) ([d0, d1, d2] ! j)" by blast
      then show "js_lt (aspect_diff a (LARGE_RESOLUTIONS ! k)) (aspect_diff a (LARGE_RESOLUTIONS ! j))"
        by (simp only: L nth_d [OF \<open>j < 3\<close>] nth_d [OF k(1)])
    qed
    ultimately show ?thesis
      unfolding a_def [symmetric] using k(1) by (intro exI [of _ k]) (simp add: L)
  qed
qed

theorem canvas_first_least_computed_diff_witness:
  "(0::nat) < 1
   \<and> prepareReferenceImage_best (Some (Num 1000)) (Some (Num 1200)) = LARGE_RESOLUTIONS ! 1
   \<and> js_lt (aspect_diff (js_div (Num 1000) (Num 1200)) (LARGE_RESOLUTIONS ! 1))
            (aspect_diff (js_div (Num 1000) (Num 1200)) (LARGE_RESOLUTIONS ! 0))"
proof -
  from canvas_first_least_computed_diff [of "Some (Num 1000)" "Some (Num 1200)"]
  obtain k where k: "k < length LARGE_RESOLUTIONS"
    "prepareReferenceImage_best (Some (Num 1000)) (Some (Num 1200)) = LARGE_RESOLUTIONS ! k"
    "\<forall>j < k. js_lt (aspect_diff (js_div (to_number (Some (Num 1000))) (to_number (Some (Num 1200))))
                        (LARGE_RESOLUTIONS ! k))
                     (aspect_diff (js_div (to_number (Some (Num 1000))) (to_number (Some (Num 1200))))
                        (LARGE_RESOLUTIONS ! j))"
    by blast
  from k(1,2) have "k = 1"
    by (auto simp: select_1000_1200 LARGE_RESOLUTIONS_def less_Suc_eq numeral_3_eq_3)
  with k(2,3) show ?thesis
    by (simp del: js_div.simps)
qed

text \<open>
  The claim as worded, on exact ratios, fails for an image of 1000 by 1200: its aspect
  ratio 5/6 is exactly as far from portrait (2/3) as from square (1), so the first canvas
  at the least distance is portrait; the code selects square, because the two differences
  it computes are 0.16666666666666674 and 0.16666666666666663.
\<close>

theorem canvas_exact_tie_counterexample:
  "exact_aspect_diff 1000 1200 (LARGE_RESOLUTIONS ! 0)
     = exact_aspect_diff 1000 1200 (LARGE_RESOLUTIONS ! 1)
   \<and> exact_aspect_diff 1000 1200 (LARGE_RESOLUTIONS ! 0)
     \<le> exact_aspect_diff 1000 1200 (LARGE_RESOLUTIONS ! 2)
   \<and> res_label (spec_canvas 1000 1200) = ''portrait''
   \<and> res_label (prepareReferenceImage_best (Some (Num 1000)) (Some (Num 1200))) = ''square''"
  by code_simp

section \<open>Properties of response unwrapping\<close>

lemma find_SomeD: "find P xs = Some x \<Longrightarrow> x \<in> set xs \<and> P x"
  by (induction xs) (auto split: if_splits)

lemma png_name: "suffix ''.png'' ''image_0.png''"
  by code_simp

lemma txt_name: "\<not> suffix ''.png'' ''readme.txt''"
  by code_simp

text \<open>
  C9, in the form that holds of the code. The director branch unwraps its response with \<^verbatim>\<open>extractPng\<close> and
  nothing else: it yields the data of the first archive entry whose name ends in
  \<^verbatim>\<open>.png\<close>; it fails with the missing-image error exactly when the response is an
  archive without such an entry; and on bytes that are no archive it fails in the archive
  library, the raw bytes are not taken as the image.
\<close>

theorem director_unwrap_no_fallback:
  "main_director_png result = extractPng result
   \<and> (\<forall>b. result = NotZip b \<longrightarrow> main_director_png result = Inl InvalidZipFormat)
   \<and> (main_director_png result = Inl NoPngFound \<longleftrightarrow>
        (\<exists>es. result = ZipArchive es \<and> (\<forall>e \<in> set es. \<not> suffix ''.png'' (entryName e))))
   \<and> (\<forall>d. main_director_png result = Inr d \<longleftrightarrow>
        (\<exists>es e. result = ZipArchive es
           \<and> find (\<lambda>e. suffix ''.png'' (entryName e)) es = Some e \<and> getData e = d))"
  by (cases result)
     (auto simp: main_director_png_def find_None_iff split: option.splits dest: find_SomeD)

theorem director_unwrap_no_fallback_witness:
  "main_director_png
     (ZipArchive [\<lparr> entryName = ''readme.txt'', getData = [104, 105] \<rparr>,
                  \<lparr> entryName = ''image_0.png'', getData = [137, 80, 78, 71] \<rparr>])
     = Inr [137, 80, 78, 71]
   \<and> main_director_png (ZipArchive [\<lparr> entryName = ''readme.txt'', getData = [104, 105] \<rparr>])
     = Inl NoPngFound
   \<and> main_director_png (NotZip [137, 80, 78, 71]) = Inl InvalidZipFormat"
  using director_unwrap_no_fallback
      [of "ZipArchive [\<lparr> entryName = ''readme.txt'', getData = [104, 105] \<rparr>,
                       \<lparr> entryName = ''image_0.png'', getData = [137, 80, 78, 71] \<rparr>]"]
    director_unwrap_no_fallback
      [of "ZipArchive [\<lparr> entryName = ''readme.txt'', getData = [104, 105] \<rparr>]"]
    director_unwrap_no_fallback [of "NotZip [137, 80, 78, 71]"]
  by (simp add: png_name txt_name)

text \<open>
  The claim fails on a response that is a bare PNG rather than an archive: the branch
  ends in the error of the archive library instead of writing the bytes received.
\<close>

theorem director_raw_bytes_counterexample:
  "main_director_png (NotZip [137, 80, 78, 71, 13, 10, 26, 10]) = Inl InvalidZipFormat
   \<and> main_director_png (NotZip [137, 80, 78, 71, 13, 10, 26, 10])
       \<noteq> Inr [137, 80, 78, 71, 13, 10, 26, 10]"
  by (simp add: main_director_png_def)

section \<open>Properties of the detection translation\<close>

lemma regions_loop_all:
  "\<forall>d \<in> set dets. box_2d d \<noteq> None \<and> label d \<noteq> None \<Longrightarrow>
     regions_loop w h dets acc = Inr (acc @ map (\<lambda>d. box_region w h (the (box_2d d))) dets)"
  by (induction dets arbitrary: acc) (auto split: option.splits)

lemma regions_loop_Inr:
  "regions_loop w h dets acc = Inr rs \<Longrightarrow> \<forall>d \<in> set dets. box_2d d \<noteq> None \<and> label d \<noteq> None"
  by (induction dets arbitrary: acc) (auto split: option.splits)

lemma box_full: "box_region (Num 832) (Num 1216) [Num 0, Num 0, Num 1000, Num 1000]
    = \<lparr> px = Num 0, py = Num 0, pw = Num 832, ph = Num 1216 \<rparr>"
  by code_simp

lemma box_short: "box_region (Num 832) (Num 1216) [Num 0, Num 0, Num 1000]
    = \<lparr> px = Num 0, py = Num 0, pw = NaN, ph = Num 1216 \<rparr>"
  by code_simp

text \<open>
  C4, in the form that holds of the code. For every batch of detections in which each detection carries a box
  array and a label, every detection is translated, in input order, into one region: none
  is dropped, whatever the length of its box. The components of a box that are missing
  count as \<^verbatim>\<open>undefined\<close>, so a box of three elements gives a region whose width is
  NaN. Whenever the translation returns at all, it returns as many regions as there were
  detections.
\<close>

theorem detections_all_translated:
  "((\<forall>d \<in> set dets. box_2d d \<noteq> None \<and> label d \<noteq> None) \<longrightarrow>
      analyzeImage_regions w h dets = Inr (map (\<lambda>d. box_region w h (the (box_2d d))) dets))
   \<and> (\<forall>rs. analyzeImage_regions w h dets = Inr rs \<longrightarrow> length rs = length dets)"
proof -
  have all: "analyzeImage_regions w h dets = Inr (map (\<lambda>d. box_region w h (the (box_2d d))) dets)"
    if "\<forall>d \<in> set dets. box_2d d \<noteq> None \<and> label d \<noteq> None"
    using that
    by (cases dets)
       (simp_all add: analyzeImage_regions_def regions_loop_all del: regions_loop.simps)
  have "length rs = length dets" if "analyzeImage_regions w h dets = Inr rs" for rs
  proof (cases "dets = []")
    case True
    with that show ?thesis by (simp add: analyzeImage_regions_def)
  next
    case False
    with that have "regions_loop w h dets [] = Inr rs"
      by (simp add: analyzeImage_regions_def)
    then have "\<forall>d \<in> set dets. box_2d d \<noteq> None \<and> label d \<noteq> None"
      by (rule regions_loop_Inr)
    from all [OF this] that show ?thesis by auto
  qed
  with all show ?thesis by blast
qed

theorem detections_all_translated_witness:
  "analyzeImage_regions (Num 832) (Num 1216)
     [\<lparr> label = Some ''face'', box_2d = Some [Num 0, Num 0, Num 1000], issue = None \<rparr>,
      \<lparr> label = Some ''hand'', box_2d = Some [Num 0, Num 0, Num 1000, Num 1000], issue = None \<rparr>]
     = Inr [\<lparr> px = Num 0, py = Num 0, pw = NaN, ph = Num 1216 \<rparr>,
            \<lparr> px = Num 0, py = Num 0, pw = Num 832, ph = Num 1216 \<rparr>]"
  using detections_all_translated
    [of "[\<lparr> label = Some ''face'', box_2d = Some [Num 0, Num 0, Num 1000], issue = None \<rparr>,
          \<lparr> label = Some ''hand'', box_2d = Some [Num 0, Num 0, Num 1000, Num 1000],
            issue = None \<rparr>]" "Num 832" "Num 1216"]
  by (simp add: box_full box_short)

text \<open>
  The claim fails on a batch whose first detection is malformed. With a box of three
  elements the detection is not dropped: it comes out as a region of width NaN. With no
  box at all the destructuring throws, and the well-formed detection after it is never
  translated.
\<close>

theorem malformed_detection_counterexample:
  "analyzeImage_regions (Num 832) (Num 1216)
     [\<lparr> label = Some ''face'', box_2d = Some [Num 0, Num 0, Num 1000], issue = None \<rparr>,
      \<lparr> label = Some ''hand'', box_2d = Some [Num 0, Num 0, Num 1000, Num 1000], issue = None \<rparr>]
     = Inr [\<lparr> px = Num 0, py = Num 0, pw = NaN, ph = Num 1216 \<rparr>,
            \<lparr> px = Num 0, py = Num 0, pw = Num 832, ph = Num 1216 \<rparr>]
   \<and> analyzeImage_regions (Num 832) (Num 1216)
     [\<lparr> label = Some ''face'', box_2d = None, issue = None \<rparr>,
      \<lparr> label = Some ''hand'', box_2d = Some [Num 0, Num 0, Num 1000, Num 1000], issue = None \<rparr>]
     = Inl TypeError"
  by code_simp

section \<open>Properties of mask creation\<close>

lemma lib_result_not_InvalidRegion: "lib_result x \<noteq> Inl (InvalidRegion s)"
  by (cases x) auto

lemma lib_result_Inr: "lib_result x = Inr v \<longleftrightarrow> x = Inr v"
  by (cases x) auto

lemma build_overlays_step:
  "build_overlays lib (r # rs) acc =
     (if has_nan_component r then Inl (InvalidRegion r)
      else (case white_rect lib r of
              Inl msg \<Rightarrow> Inl (LibraryError msg)
            | Inr rect \<Rightarrow>
                build_overlays lib rs
                  (acc @ [(rect, to_number (at_index (region_numbers r) 0),
                           to_number (at_index (region_numbers r) 1))])))"
  by (simp add: has_nan_component_def white_rect_def Let_def split: sum.splits)

lemma build_overlays_invalid_iff:
  "(\<exists>s. build_overlays lib rs acc = Inl (InvalidRegion s)) \<longleftrightarrow>
     (\<exists>pre s post. rs = pre @ s # post \<and> has_nan_component s
        \<and> (\<forall>t \<in> set pre. \<not> has_nan_component t \<and> (\<exists>rect. white_rect lib t = Inr rect)))"
proof (induction rs arbitrary: acc)
  case Nil
  show ?case by simp
next
  case (Cons r rs)
  show ?case
  proof (cases "has_nan_component r")
    case True
    then have "build_overlays lib (r # rs) acc = Inl (InvalidRegion r)"
      by (simp only: build_overlays_step if_True)
    moreover have "r # rs = [] @ r # rs" by simp
    ultimately show ?thesis using True by (metis empty_iff list.set(1))
  next
    case nonan: False
    show ?thesis
    proof (cases "white_rect lib r")
      case (Inl msg)
      then have "build_overlays lib (r # rs) acc = Inl (LibraryError msg)"
        using nonan by (simp only: build_overlays_step if_False sum.case)
      moreover have "\<not> (\<exists>pre s post. r # rs = pre @ s # post \<and> has_nan_component s
        \<and> (\<forall>t \<in> set pre. \<not> has_nan_component t \<and> (\<exists>rect. white_rect lib t = Inr rect)))"
        using nonan Inl by (auto simp: Cons_eq_append_conv)
      ultimately show ?thesis by simp
    next
      case (Inr rect)
      let ?acc = "acc @ [(rect, to_number (at_index (region_numbers r) 0),
                          to_number (at_index (region_numbers r) 1))]"
      have step: "build_overlays lib (r # rs) acc = build_overlays lib rs ?acc"
        using nonan Inr by (simp only: build_overlays_step if_False sum.case)
      have "(\<exists>pre s post. r # rs = pre @ s # post \<and> has_nan_component s
              \<and> (\<forall>t \<in> set pre. \<not> has_nan_component t \<and> (\<exists>rect. white_rect lib t = Inr rect)))
            \<longleftrightarrow> (\<exists>pre s post. rs = pre @ s # post \<and> has_nan_component s
              \<and> (\<forall>t \<in> set pre. \<not> has_nan_component t \<and> (\<exists>rect. white_rect lib t = Inr rect)))"
        (is "?L \<longleftrightarrow> ?R")
      proof
        assume ?L
        then obtain pre s post where *: "r # rs = pre @ s # post" "has_nan_component s"
          "\<forall>t \<in> set pre. \<not> has_nan_component t \<and> (\<exists>rect. white_rect lib t = Inr rect)"
          by blast
        from *(1,2) nonan obtain pre' where "pre = r # pre'" "rs = pre' @ s # post"
          by (cases pre) auto
        with * show ?R by auto
      next
        assume ?R
        then obtain pre s post where *: "rs = pre @ s # post" "has_nan_component s"
          "\<forall>t \<in> set pre. \<not> has_nan_component t \<and> (\<exists>rect. white_rect lib t = Inr rect)"
          by blast
        have "r # rs = (r # pre) @ s # post" using *(1) by simp
        moreover have "\<forall>t \<in> set (r # pre). \<not> has_nan_component t \<and> (\<exists>rect. white_rect lib t = Inr rect)"
          using * nonan Inr by auto
        ultimately show ?L using *(2) by blast
      qed
      with Cons.IH [of ?acc] step show ?thesis by simp
    qed
  qed
qed

text \<open>
  C7, in the form that holds of the code. \<^verbatim>\<open>createMask\<close> fails with the invalid-region error exactly when
  the canvas could be created and, reading the region strings in listed order, one with
  a component (x, y, width or height) that is missing or parses to NaN is reached before
  any region whose white rectangle the raster library refuses. A negative width or
  height is not checked by \<^verbatim>\<open>createMask\<close>: it goes to the raster library as it is. In
  particular no list of regions free of NaN components raises the invalid-region error.
  This holds for every implementation of the raster library.
\<close>

theorem invalid_region_iff_nan_first:
  "((\<exists>s. createMask lib opts = Inl (InvalidRegion s)) \<longleftrightarrow>
      (\<exists>w h black pre s post.
          mask_dimensions lib opts = Inr (w, h) \<and> lib_create lib w h 0 = Inr black
          \<and> regions opts = pre @ s # post \<and> has_nan_component s
          \<and> (\<forall>t \<in> set pre. \<not> has_nan_component t \<and> (\<exists>rect. white_rect lib t = Inr rect))))
   \<and> ((\<forall>t \<in> set (regions opts). \<not> has_nan_component t) \<longrightarrow>
        (\<forall>s. createMask lib opts \<noteq> Inl (InvalidRegion s)))"
proof -
  have dims: "mask_dimensions lib opts \<noteq> Inl (InvalidRegion s)" for s
    by (simp add: mask_dimensions_def lib_result_not_InvalidRegion)
  have main: "(\<exists>s. createMask lib opts = Inl (InvalidRegion s)) \<longleftrightarrow>
      (\<exists>w h black. mask_dimensions lib opts = Inr (w, h) \<and> lib_create lib w h 0 = Inr black
          \<and> (\<exists>s. build_overlays lib (regions opts) [] = Inl (InvalidRegion s)))"
  proof (cases "mask_dimensions lib opts")
    case (Inl e)
    with dims show ?thesis by (auto simp: createMask_def)
  next
    case (Inr wh)
    obtain w h where wh: "wh = (w, h)" by (cases wh)
    show ?thesis
    proof (cases "lib_create lib w h 0")
      case (Inl msg)
      with Inr wh show ?thesis by (simp add: createMask_def)
    next
      case black: (Inr black)
      show ?thesis
      proof (cases "regions opts = []")
        case True
        with Inr wh black show ?thesis
          by (auto simp: createMask_def lib_result_not_InvalidRegion split: sum.splits)
      next
        case False
        with Inr wh black show ?thesis
          by (auto simp: createMask_def lib_result_not_InvalidRegion lib_result_Inr
              split: sum.splits)
      qed
    qed
  qed
  have first: "(\<exists>s. createMask lib opts = Inl (InvalidRegion s)) \<longleftrightarrow>
      (\<exists>w h black pre s post.
          mask_dimensions lib opts = Inr (w, h) \<and> lib_create lib w h 0 = Inr black
          \<and> regions opts = pre @ s # post \<and> has_nan_component s
          \<and> (\<forall>t \<in> set pre. \<not> has_nan_component t \<and> (\<exists>rect. white_rect lib t = Inr rect)))"
    unfolding main build_overlays_invalid_iff by blast
  have second: "\<forall>s. createMask lib opts \<noteq> Inl (InvalidRegion s)"
    if "\<forall>t \<in> set (regions opts). \<not> has_nan_component t"
  proof -
    have "\<not> (\<exists>s. createMask lib opts = Inl (InvalidRegion s))"
      unfolding first using that by auto
    then show ?thesis by blast
  qed
  from first second show ?thesis by blast
qed

lemma int_of_NaN: "int_of x = Some n \<Longrightarrow> x \<noteq> NaN"
  by (cases x) auto

lemma int_of_Some: "int_of x = Some n \<Longrightarrow> x = Num (of_int n)"
  by (cases x) (auto split: if_splits)

lemma int_of_of_nat: "int_of (Num (of_nat n)) = Some (int n)"
  by simp

lemma is_canvas_uniform: "is_canvas cw ch (uniform cw ch c)"
  by (simp add: is_canvas_def uniform_def)

lemma uniform_nth: "j < ch \<Longrightarrow> i < cw \<Longrightarrow> uniform cw ch c ! j ! i = c"
  by (simp add: uniform_def)

lemma region_rect_components:
  assumes "region_rect s = Some (x, y, w, h)"
  shows "to_number (at_index (region_numbers s) 0) = Num (of_int x)"
    and "to_number (at_index (region_numbers s) 1) = Num (of_int y)"
    and "to_number (at_index (region_numbers s) 2) = Num (of_int w)"
    and "to_number (at_index (region_numbers s) 3) = Num (of_int h)"
  using assms
  by (auto simp: region_rect_def Let_def dest: int_of_Some split: option.splits)

lemma region_rect_no_nan: "region_rect s = Some r \<Longrightarrow> \<not> has_nan_component s"
  by (cases r) (auto simp: has_nan_component_def isNaN_def Let_def dest: region_rect_components)

lemma spec_create_pos:
  "0 < w \<Longrightarrow> 0 < h \<Longrightarrow> spec_create (Num (of_int w)) (Num (of_int h)) c = Inr (uniform (nat w) (nat h) c)"
  by (simp add: spec_create_def is_pos_int_def)

lemma white_rect_spec:
  assumes "region_rect s = Some (x, y, w, h)" "0 < w" "0 < h"
  shows "white_rect (spec_raster files) s = Inr (uniform (nat w) (nat h) 255)"
  using assms
  by (simp add: white_rect_def spec_raster_def region_rect_components spec_create_pos)

lemma build_overlays_spec:
  assumes "\<forall>s \<in> set rs. \<exists>r. region_rect s = Some r \<and> fits cw ch r"
  shows "build_overlays (spec_raster files) rs acc
         = Inr (acc @ map (\<lambda>s. case the (region_rect s) of (x, y, w, h) \<Rightarrow>
                              (uniform (nat w) (nat h) 255, Num (of_int x), Num (of_int y))) rs)"
  using assms
proof (induction rs arbitrary: acc)
  case Nil
  show ?case by simp
next
  case (Cons s rs)
  from Cons.prems obtain x y w h where r: "region_rect s = Some (x, y, w, h)"
    and f: "fits cw ch (x, y, w, h)"
    by fastforce
  from f have pos: "0 < w" "0 < h" by (simp_all add: fits_def)
  have "\<not> has_nan_component s" using r by (rule region_rect_no_nan)
  moreover note white_rect_spec [OF r pos, of files]
  moreover have "\<forall>s \<in> set rs. \<exists>r. region_rect s = Some r \<and> fits cw ch r"
    using Cons.prems by simp
  ultimately show ?case
    using Cons.IH r
    by (simp only: build_overlays_step if_False sum.case region_rect_components [OF r])
       (simp add: r)
qed

lemma paint_white:
  assumes "is_canvas cw ch base" "0 < w" "0 < h"
  shows "is_canvas cw ch (paint base (white_overlay (x, y, w, h)))"
    and "j < ch \<Longrightarrow> i < cw \<Longrightarrow>
           paint base (white_overlay (x, y, w, h)) ! j ! i
             = (if covers (x, y, w, h) i j then 255 else base ! j ! i)"
proof -
  from assms(1) have len: "length base = ch" and rows: "\<And>j. j < ch \<Longrightarrow> length (base ! j) = cw"
    by (simp_all add: is_canvas_def)
  show "is_canvas cw ch (paint base (white_overlay (x, y, w, h)))"
    by (simp add: is_canvas_def paint_def white_overlay_def len rows)
  assume j: "j < ch" and i: "i < cw"
  have row: "uniform (nat w) (nat h) 255 ! nat (int j - y) = replicate (nat w) 255"
    if "0 \<le> int j - y" "int j - y < h"
    using that by (simp add: uniform_def)
  show "paint base (white_overlay (x, y, w, h)) ! j ! i
          = (if covers (x, y, w, h) i j then 255 else base ! j ! i)"
  proof (cases "covers (x, y, w, h) i j")
    case True
    then have c: "0 \<le> int j - y" "int j - y < h" "0 \<le> int i - x" "int i - x < w"
      by (simp_all add: covers_def)
    then show ?thesis
      using True j i assms(2,3)
      by (simp add: paint_def white_overlay_def len rows Let_def row)
         (simp add: uniform_def)
  next
    case False
    show ?thesis
    proof (cases "0 \<le> int j - y \<and> int j - y < h")
      case True
      with False have "\<not> (0 \<le> int i - x \<and> int i - x < w)"
        by (auto simp: covers_def)
      with True False j i assms(2,3) show ?thesis
        by (auto simp: paint_def white_overlay_def len rows Let_def row uniform_def)
    next
      case False
      with \<open>\<not> covers (x, y, w, h) i j\<close> j i assms(2,3) show ?thesis
        by (auto simp: paint_def white_overlay_def len rows Let_def uniform_def)
    qed
  qed
qed

lemma foldl_paint_white:
  assumes "is_canvas cw ch base" "\<forall>r \<in> set rs. fits (int cw) (int ch) r"
  shows "is_canvas cw ch (foldl paint base (map white_overlay rs))
         \<and> (\<forall>j < ch. \<forall>i < cw.
               foldl paint base (map white_overlay rs) ! j ! i
                 = (if \<exists>r \<in> set rs. covers r i j then 255 else base ! j ! i))"
  using assms
proof (induction rs arbitrary: base)
  case Nil
  then show ?case by simp
next
  case (Cons r rs)
  obtain x y w h where r: "r = (x, y, w, h)" by (cases r)
  from Cons.prems(2) r have pos: "0 < w" "0 < h" by (simp_all add: fits_def)
  note p = paint_white [OF Cons.prems(1) pos, where x = x and y = y]
  have "\<forall>r \<in> set rs. fits (int cw) (int ch) r" using Cons.prems(2) by simp
  from Cons.IH [OF p(1) this] show ?case
    by (simp add: r p(2))
qed

text \<open>
  C6, in the form that holds of the code. Mask synthesis, over the modelled raster
  library, for a canvas of \<open>cw\<close> by \<open>ch\<close> pixels (from the options or from the source
  image) and region strings each of which is a rectangle of integers with a positive
  width and a positive height that lies within the canvas. Every listed region becomes a
  solid white overlay of its width and height at its offsets, in listed order. The mask
  has \<open>ch\<close> rows of \<open>cw\<close> pixels. With no region every pixel is white; with regions a pixel
  is white when some listed rectangle covers it and black otherwise; and when
  \<^verbatim>\<open>invertMask\<close> is set the negation \<open>255 - v\<close> is applied to that result as the last
  step.
\<close>

theorem mask_pixels:
  assumes "mask_dimensions (spec_raster files) opts = Inr (Num (of_nat cw), Num (of_nat ch))"
    and "0 < cw" and "0 < ch"
    and "\<forall>s \<in> set (regions opts). \<exists>r. region_rect s = Some r \<and> fits (int cw) (int ch) r"
  shows "build_overlays (spec_raster files) (regions opts) []
           = Inr (map (\<lambda>s. case the (region_rect s) of (x, y, w, h) \<Rightarrow>
                         (uniform (nat w) (nat h) 255, Num (of_int x), Num (of_int y)))
                    (regions opts))
         \<and> (\<exists>m. createMask (spec_raster files) opts = Inr m
           \<and> length m = ch
           \<and> (\<forall>j < ch. length (m ! j) = cw
                \<and> (\<forall>i < cw. m ! j ! i =
                      (let v = (if regions opts = []
                                   \<or> (\<exists>s \<in> set (regions opts). covers (the (region_rect s)) i j)
                                then 255 else 0)
                       in if invertMask opts then 255 - v else v))))"
proof -
  let ?lib = "spec_raster files"
  let ?rs = "map (\<lambda>s. the (region_rect s)) (regions opts)"
  let ?v = "\<lambda>i j. if regions opts = [] \<or> (\<exists>s \<in> set (regions opts). covers (the (region_rect s)) i j)
                   then 255 else (0::nat)"
  have black: "lib_create ?lib (Num (of_nat cw)) (Num (of_nat ch)) c = Inr (uniform cw ch c)" for c
    using assms(2,3) spec_create_pos [of "int cw" "int ch" c]
    by (simp add: spec_raster_def)
  have fits_rs: "\<forall>r \<in> set ?rs. fits (int cw) (int ch) r"
    using assms(4) by fastforce
  have ov: "build_overlays ?lib (regions opts) []
              = Inr (map (\<lambda>s. case the (region_rect s) of (x, y, w, h) \<Rightarrow>
                          (uniform (nat w) (nat h) 255, Num (of_int x), Num (of_int y))) (regions opts))"
    using build_overlays_spec [OF assms(4), of files "[]"] by simp
  have comp: "lib_composite ?lib (uniform cw ch 0)
                (map (\<lambda>s. case the (region_rect s) of (x, y, w, h) \<Rightarrow>
                          (uniform (nat w) (nat h) 255, Num (of_int x), Num (of_int y))) (regions opts))
              = Inr (foldl paint (uniform cw ch 0) (map white_overlay ?rs))"
    by (simp add: spec_raster_def spec_composite_def list_all_iff white_overlay_def
        split_beta comp_def)
  define m0 where "m0 = (if regions opts \<noteq> []
                         then foldl paint (uniform cw ch 0) (map white_overlay ?rs)
                         else uniform cw ch 255)"
  have m0_canvas: "is_canvas cw ch m0"
    using foldl_paint_white [OF is_canvas_uniform fits_rs, of 0]
    by (simp add: m0_def is_canvas_uniform)
  have m0_pix: "m0 ! j ! i = ?v i j" if "j < ch" "i < cw" for i j
  proof (cases "regions opts = []")
    case True
    with that show ?thesis by (simp add: m0_def uniform_nth)
  next
    case False
    from foldl_paint_white [OF is_canvas_uniform fits_rs, of 0] that
    have "foldl paint (uniform cw ch 0) (map white_overlay ?rs) ! j ! i
            = (if \<exists>r \<in> set ?rs. covers r i j then 255 else uniform cw ch 0 ! j ! i)"
      by blast
    with False that show ?thesis
      by (simp add: m0_def uniform_nth)
  qed
  have unfold: "createMask ?lib opts
                  = (if invertMask opts then lib_result (lib_negate ?lib m0) else Inr m0)"
    by (simp add: createMask_def assms(1) black ov comp m0_def)
  have pix: "\<exists>m. createMask ?lib opts = Inr m \<and> length m = ch
                \<and> (\<forall>j < ch. length (m ! j) = cw
                     \<and> (\<forall>i < cw. m ! j ! i = (if invertMask opts then 255 - ?v i j else ?v i j)))"
  proof (cases "invertMask opts")
    case False
    with unfold have "createMask ?lib opts = Inr m0" by simp
    moreover have "length m0 = ch" using m0_canvas by (simp add: is_canvas_def)
    moreover have "\<forall>j < ch. length (m0 ! j) = cw
                     \<and> (\<forall>i < cw. m0 ! j ! i = (if invertMask opts then 255 - ?v i j else ?v i j))"
      using m0_canvas m0_pix False by (simp add: is_canvas_def)
    ultimately show ?thesis by blast
  next
    case True
    let ?m = "map (map (\<lambda>v. 255 - v)) m0"
    from True unfold have "createMask ?lib opts = Inr ?m"
      by (simp add: spec_raster_def spec_negate_def)
    moreover have "length ?m = ch" using m0_canvas by (simp add: is_canvas_def)
    moreover have "\<forall>j < ch. length (?m ! j) = cw
                     \<and> (\<forall>i < cw. ?m ! j ! i = (if invertMask opts then 255 - ?v i j else ?v i j))"
    proof (intro allI impI conjI)
      fix j assume j: "j < ch"
      then show "length (?m ! j) = cw" using m0_canvas by (simp add: is_canvas_def)
      fix i assume i: "i < cw"
      have "?m ! j ! i = 255 - m0 ! j ! i"
        using i j m0_canvas by (simp add: is_canvas_def)
      also have "m0 ! j ! i = ?v i j" using j i by (rule m0_pix)
      finally show "?m ! j ! i = (if invertMask opts then 255 - ?v i j else ?v i j)"
        using True by simp
    qed
    ultimately show ?thesis by blast
  qed
  with ov show ?thesis
    by (simp add: Let_def)
qed


lemma rect_1121: "region_rect ''1,1,2,1'' = Some (1, 1, 2, 1)"
  by code_simp

lemma nan_short: "has_nan_component ''10,20,30''"
  by code_simp

lemma nonan_negative: "\<not> has_nan_component ''0,0,-5,5''"
  by code_simp

theorem mask_pixels_witness:
  "\<exists>m. createMask (spec_raster Map.empty)
          (default_opts \<lparr> width := Num 4, height := Num 3, regions := [''1,1,2,1''] \<rparr>) = Inr m
       \<and> length m = 3 \<and> length (m ! 1) = 4 \<and> m ! 1 ! 1 = 255 \<and> m ! 0 ! 0 = 0"
proof -
  let ?opts = "default_opts \<lparr> width := Num 4, height := Num 3, regions := [''1,1,2,1''] \<rparr>"
  have d: "mask_dimensions (spec_raster Map.empty) ?opts = Inr (Num (of_nat 4), Num (of_nat 3))"
    by (simp add: mask_dimensions_def default_opts_def)
  have r: "\<forall>s \<in> set (regions ?opts). \<exists>r. region_rect s = Some r \<and> fits (int 4) (int 3) r"
    by (simp add: default_opts_def rect_1121 fits_def)
  from mask_pixels [OF d _ _ r] obtain m where m:
    "createMask (spec_raster Map.empty) ?opts = Inr m" "length m = 3"
    "\<forall>j < 3. length (m ! j) = 4
        \<and> (\<forall>i < 4. m ! j ! i =
              (let v = (if regions ?opts = []
                           \<or> (\<exists>s \<in> set (regions ?opts). covers (the (region_rect s)) i j)
                        then 255 else 0)
               in if invertMask ?opts then 255 - v else v))"
    by auto
  from m(3) have "length (m ! 1) = 4" "m ! 1 ! 1 = 255" "m ! 0 ! 0 = 0"
    by (simp_all add: default_opts_def rect_1121 covers_def)
  with m(1,2) show ?thesis by blast
qed

theorem invalid_region_iff_nan_first_witness:
  "(\<exists>s. createMask (spec_raster Map.empty) (default_opts \<lparr> regions := [''10,20,30''] \<rparr>)
           = Inl (InvalidRegion s))
   \<and> (\<forall>s. createMask (spec_raster Map.empty) (default_opts \<lparr> regions := [''0,0,-5,5''] \<rparr>)
           \<noteq> Inl (InvalidRegion s))"
proof -
  let ?lib = "spec_raster Map.empty :: raster raster_lib"
  let ?o1 = "default_opts \<lparr> regions := [''10,20,30''] \<rparr>"
  have "mask_dimensions ?lib ?o1 = Inr (Num 832, Num 1216)"
    by (simp add: mask_dimensions_def default_opts_def)
  moreover have "lib_create ?lib (Num 832) (Num 1216) 0 = Inr (uniform 832 1216 0)"
    using spec_create_pos [of 832 1216 0] by (simp add: spec_raster_def)
  moreover have "regions ?o1 = [] @ ''10,20,30'' # []"
    by (simp add: default_opts_def)
  ultimately have "\<exists>s. createMask ?lib ?o1 = Inl (InvalidRegion s)"
    using invalid_region_iff_nan_first [of ?lib ?o1] nan_short
    by (metis empty_iff list.set(1))
  moreover have "\<forall>s. createMask ?lib (default_opts \<lparr> regions := [''0,0,-5,5''] \<rparr>)
                        \<noteq> Inl (InvalidRegion s)"
    using invalid_region_iff_nan_first [of ?lib "default_opts \<lparr> regions := [''0,0,-5,5''] \<rparr>"]
      nonan_negative
    by (simp add: default_opts_def)
  ultimately show ?thesis by blast
qed

text \<open>
  The claim as worded, for every list of rectangles, fails on a rectangle of height 0,
  which is a rectangle of non-negative integers within the canvas: the raster library
  refuses to create its white overlay, and no mask is produced, whether the rectangle
  comes alone or after one that could be painted.
\<close>

theorem zero_height_region_counterexample:
  "region_numbers ''1,1,2,0'' = [Num 1, Num 1, Num 2, Num 0]
   \<and> createMask (spec_raster Map.empty)
        (default_opts \<lparr> width := Num 4, height := Num 3, regions := [''1,1,2,0''] \<rparr>)
      = Inl (LibraryError
               ''Expected valid width, height and channels to create a new input image'')
   \<and> createMask (spec_raster Map.empty)
        (default_opts \<lparr> width := Num 4, height := Num 3, regions := [''1,1,2,1'', ''1,1,2,0''] \<rparr>)
      = Inl (LibraryError
               ''Expected valid width, height and channels to create a new input image'')"
  by code_simp

text \<open>
  The claim fails on the region \<^verbatim>\<open>0,0,-5,5\<close>: its width is negative and none of its
  numbers is NaN, and \<^verbatim>\<open>createMask\<close> does not end in the invalid-region error; the
  rectangle reaches the raster library, whose own error comes out.
\<close>

theorem negative_width_counterexample:
  "region_numbers ''0,0,-5,5'' = [Num 0, Num 0, Num (- 5), Num 5]
   \<and> createMask (spec_raster Map.empty)
        (default_opts \<lparr> width := Num 4, height := Num 3, regions := [''0,0,-5,5''] \<rparr>)
      = Inl (LibraryError
               ''Expected valid width, height and channels to create a new input image'')"
  by code_simp

end
